theory Spec2Isabelle
  imports Main "HOL-Library.AList" "HOL-Library.Sublist"
begin

section \<open>Data model of the Monica collaborator (MonicaHelper.py)\<close>

text \<open>
  Contact ids arrive from JSON as integers, while the ids handed in by callers are
  strings; the source compares them through \<^verbatim>\<open>str(...)\<close> and uses them
  unconverted as dictionary keys. A Python value used as an id is therefore either
  an integer or a string, and the two are never equal as dictionary keys.
\<close>

datatype pyid = IdInt int | IdStr string

function str_nat :: "nat \<Rightarrow> string" where
  "str_nat n =
     (if n < 10 then [''0123456789'' ! n]
      else str_nat (n div 10) @ [''0123456789'' ! (n mod 10)])"
  by pat_completeness auto
termination
  by (relation "measure id") auto

declare str_nat.simps [simp del]

definition str_int :: "int \<Rightarrow> string" where
  "str_int i = (if i < 0 then CHR ''-'' # str_nat (nat (- i)) else str_nat (nat i))"

fun str_id :: "pyid \<Rightarrow> string" where
  "str_id (IdInt i) = str_int i"
| "str_id (IdStr s) = s"

record contact_label =
  label_name :: string

record contact =
  contact_id :: pyid
  complete_name :: string
  updated_at :: string
  tags :: "contact_label list"

text \<open>
  The payloads of the remote interface, with the keys the source reads.
\<close>

record gender =
  gender_ident :: int
  gender_type :: string

record field_type =
  field_type_ident :: int
  field_type_type :: string

record monica_note =
  note_ident :: pyid

record address =
  address_ident :: pyid

record contact_field =
  contact_field_ident :: pyid
  contact_field_type_type :: string

text \<open>
  The dictionary \<^verbatim>\<open>MonicaContactUploadForm.data\<close>, and the arguments of the
  constructor that builds it.
\<close>

record upload_form =
  first_name :: string
  last_name :: "string option"
  nickname :: "string option"
  middle_name :: "string option"
  gender_id :: int
  birthdate_day :: "string option"
  birthdate_month :: "string option"
  birthdate_year :: "string option"
  birthdate_is_age_based :: bool
  deceased_date_add_reminder :: bool
  birthdate_add_reminder :: bool
  is_birthdate_known :: bool
  is_deceased :: bool
  is_deceased_date_known :: bool
  deceased_date_day :: "int option"
  deceased_date_month :: "int option"
  deceased_date_year :: "int option"
  deceased_date_is_age_based :: "bool option"

record form_args =
  arg_first_name :: string
  arg_last_name :: "string option"
  arg_nick_name :: "string option"
  arg_middle_name :: "string option"
  arg_gender_type :: string
  arg_birthdate_day :: "string option"
  arg_birthdate_month :: "string option"
  arg_birthdate_year :: "string option"
  arg_is_birthdate_age_based :: bool
  arg_is_birthdate_known :: bool
  arg_is_deceased :: bool
  arg_is_deceased_date_known :: bool
  arg_deceased_day :: "int option"
  arg_deceased_month :: "int option"
  arg_deceased_year :: "int option"
  arg_deceased_age_based :: "bool option"
  arg_create_reminders :: bool

text \<open>The defaults of the constructor's keyword arguments.\<close>

definition default_form_args :: "string \<Rightarrow> form_args" where
  "default_form_args first =
     \<lparr>arg_first_name = first, arg_last_name = None, arg_nick_name = None,
      arg_middle_name = None, arg_gender_type = ''O'', arg_birthdate_day = None,
      arg_birthdate_month = None, arg_birthdate_year = None,
      arg_is_birthdate_age_based = False, arg_is_birthdate_known = False,
      arg_is_deceased = False, arg_is_deceased_date_known = False,
      arg_deceased_day = None, arg_deceased_month = None, arg_deceased_year = None,
      arg_deceased_age_based = None, arg_create_reminders = True\<rparr>"

text \<open>
  A dictionary with a \<^verbatim>\<open>contact_id\<close> key (the note and address forms), and one
  with a \<^verbatim>\<open>tags\<close> key (tag ids for removal, tag names for assignment).
\<close>

record owned_form =
  contact_id_of :: pyid

record tags_form =
  form_tags :: "pyid list"

subsection \<open>Exceptions, log, remote responses\<close>

datatype error =
    MonicaFetchError string
  | InternalError string
  | IndexError string
  | KeyError string
  | TypeError string
  | ValueError string
  | OverflowError string

definition quoted :: "string \<Rightarrow> string" where
  "quoted s = CHR 0x27 # s @ [CHR 0x27]"

text \<open>\<^verbatim>\<open>str(e)\<close>: the message, and for a KeyError the quoted key.\<close>

fun str_error :: "error \<Rightarrow> string" where
  "str_error (MonicaFetchError m) = m"
| "str_error (InternalError m) = m"
| "str_error (IndexError m) = m"
| "str_error (KeyError k) = quoted k"
| "str_error (TypeError m) = m"
| "str_error (ValueError m) = m"
| "str_error (OverflowError m) = m"

datatype level = INFO | WARNING | ERROR

text \<open>
  A log message is text; where an f-string formats a whole dictionary or list, the
  value is kept beside the text instead of being rendered.
\<close>

datatype message =
    Msg string
  | MsgForm string upload_form
  | MsgTags string "pyid list" string

text \<open>
  What \<^verbatim>\<open>int(response.headers.get('Retry-After'))\<close> finds: no header, a text
  that is no integer, or the integer.
\<close>

datatype retry_after = Absent | Malformed string | Seconds int

text \<open>
  A response of the remote, with what the source reads from it:
  \<^verbatim>\<open>status_code\<close>, \<^verbatim>\<open>json()['error']['message']\<close>, the Retry-After
  header, \<^verbatim>\<open>json()['data']\<close> and \<^verbatim>\<open>json()['meta']['last_page']\<close>.
\<close>

record 'd response =
  status_code :: int
  error_message :: string
  retry_after_header :: retry_after
  json_data :: 'd
  meta_last_page :: int

text \<open>
  Modelled from the spec: the mapping store behind \<^verbatim>\<open>self.database\<close>
  (DatabaseHelper.py is not among the sources). A MappingRecord links a source id and
  a target id and caches both sides' last-changed timestamps and display names;
  \<^verbatim>\<open>update\<close>, called with a target id, stores the target side's timestamp and,
  when one is given, its display name in the record bound to that id.
\<close>

record mapping_record =
  sourceId :: string
  targetId :: string
  sourceLastChanged :: string
  targetLastChanged :: string
  sourceDisplayName :: string
  targetDisplayName :: string

definition Database_update ::
  "pyid \<Rightarrow> string \<Rightarrow> string option \<Rightarrow> mapping_record list \<Rightarrow> mapping_record list" where
  "Database_update monica_id monica_last_changed monica_full_name db =
     map (\<lambda>r. if targetId r = str_id monica_id
               then r\<lparr>targetLastChanged := monica_last_changed,
                      targetDisplayName :=
                        (case monica_full_name of None \<Rightarrow> targetDisplayName r
                         | Some n \<Rightarrow> n)\<rparr>
               else r) db"

subsection \<open>The state of a \<^verbatim>\<open>Monica\<close> object\<close>

text \<open>
  The attributes of \<^verbatim>\<open>Monica\<close> that change or are read, the log and the
  database it writes to, and the waits of \<^verbatim>\<open>time.sleep\<close>. Console output is
  left out. The dictionaries are association lists in insertion order.
\<close>

record monica =
  label_include :: "string list"
  label_exclude :: "string list"
  is_data_already_fetched :: bool
  contacts :: "contact list"
  gender_mapping :: "(string \<times> int) list"
  contact_field_type_mapping :: "(string \<times> int) list"
  updated_contacts :: "(pyid \<times> bool) list"
  created_contacts :: "(pyid \<times> bool) list"
  deleted_contacts :: "(pyid \<times> bool) list"
  api_requests :: nat
  create_reminders :: bool
  log :: "(level \<times> message) list"
  database :: "mapping_record list"
  slept :: "int list"

definition log_info :: "message \<Rightarrow> monica \<Rightarrow> monica" where
  "log_info m self = self\<lparr>log := log self @ [(INFO, m)]\<rparr>"

definition log_warning :: "message \<Rightarrow> monica \<Rightarrow> monica" where
  "log_warning m self = self\<lparr>log := log self @ [(WARNING, m)]\<rparr>"

definition log_error :: "message \<Rightarrow> monica \<Rightarrow> monica" where
  "log_error m self = self\<lparr>log := log self @ [(ERROR, m)]\<rparr>"

text \<open>The prefix \<^verbatim>\<open>'{name}' ('{monica_id}')\<close> of most messages.\<close>

definition who :: "string \<Rightarrow> pyid \<Rightarrow> string" where
  "who name monica_id = quoted name @ '' ('' @ quoted (str_id monica_id) @ '')''"

definition str_opt :: "string option \<Rightarrow> string" where
  "str_opt v = (case v of None \<Rightarrow> ''None'' | Some s \<Rightarrow> s)"

section \<open>Label filter\<close>

text \<open>\<^verbatim>\<open>Monica.__filter_contacts_by_label\<close>.\<close>

definition filter_contacts_by_label :: "monica \<Rightarrow> contact list \<Rightarrow> contact list" where
  "filter_contacts_by_label self contact_list =
     (if label_include self \<noteq> [] then
        [contact \<leftarrow> contact_list.
           list_ex (\<lambda>contact_label. label_name contact_label \<in> set (label_include self))
             (tags contact)
           \<and> list_all (\<lambda>contact_label. label_name contact_label \<notin> set (label_exclude self))
               (tags contact)]
      else if label_exclude self \<noteq> [] then
        [contact \<leftarrow> contact_list.
           list_all (\<lambda>contact_label. label_name contact_label \<notin> set (label_exclude self))
             (tags contact)]
      else contact_list)"

text \<open>The eligibility rule in the words of the specification.\<close>

definition eligible :: "string list \<Rightarrow> string list \<Rightarrow> contact \<Rightarrow> bool" where
  "eligible include exclude c =
     ((include = [] \<or> (\<exists>l \<in> set (tags c). label_name l \<in> set include))
      \<and> (\<forall>l \<in> set (tags c). label_name l \<notin> set exclude))"

section \<open>Session statistics\<close>

text \<open>
  \<^verbatim>\<open>Monica.update_statistics\<close>: the comprehension keeps the items of
  \<^verbatim>\<open>updated_contacts\<close> whose key is no key of \<^verbatim>\<open>created_contacts\<close>.
\<close>

definition update_statistics :: "monica \<Rightarrow> monica" where
  "update_statistics self =
     self\<lparr>updated_contacts :=
            [(key, v) \<leftarrow> updated_contacts self. key \<notin> fst ` set (created_contacts self)]\<rparr>"

text \<open>
  \<^verbatim>\<open>Monica.__init__\<close>: a fresh object for a label filter, a reminder switch and a
  database.
\<close>

definition Monica_init ::
  "mapping_record list \<Rightarrow> bool \<Rightarrow> string list \<Rightarrow> string list \<Rightarrow> monica" where
  "Monica_init database_handler reminders include exclude =
     \<lparr>label_include = include, label_exclude = exclude,
      is_data_already_fetched = False, contacts = [], gender_mapping = [],
      contact_field_type_mapping = [], updated_contacts = [], created_contacts = [],
      deleted_contacts = [], api_requests = 0, create_reminders = reminders,
      log = [], database = database_handler, slept = []\<rparr>"

section \<open>Requests, rate limiting and the retry loop\<close>

text \<open>
  The remote is a sequence of responses: the request issued when \<^verbatim>\<open>api_requests\<close>
  is \<open>k\<close> is answered by the \<open>k\<close>-th response. Since the requests a call issues
  depend only on the responses before, every behaviour of the remote towards a call
  is such a sequence. \<^verbatim>\<open>request\<close> is a call of \<^verbatim>\<open>requests.get/put/post/delete\<close>
  with the \<^verbatim>\<open>self.api_requests += 1\<close> that follows each of them.
\<close>

definition request :: "(nat \<Rightarrow> 'd response) \<Rightarrow> monica \<Rightarrow> 'd response \<times> monica" where
  "request remote self =
     (remote (api_requests self), self\<lparr>api_requests := api_requests self + 1\<rparr>)"

definition slow_down_text :: string where
  "slow_down_text = ''Too many attempts, please slow down the request''"

text \<open>
  The longest wait \<^verbatim>\<open>time.sleep\<close> takes: CPython keeps the length in a signed
  64-bit count of nanoseconds, so a whole number of seconds above 9223372036 raises
  OverflowError.
\<close>

definition sleep_max :: int where
  "sleep_max = 9223372036"

text \<open>
  \<^verbatim>\<open>Monica.__is_slow_down_error\<close>. \<^verbatim>\<open>int(None)\<close> raises TypeError, \<^verbatim>\<open>int\<close> of
  a text that is no integer raises ValueError, \<^verbatim>\<open>time.sleep\<close> of a negative
  number raises ValueError and of a number that is too large OverflowError.
\<close>

definition is_slow_down_error ::
  "monica \<Rightarrow> 'd response \<Rightarrow> string \<Rightarrow> (error + bool) \<times> monica" where
  "is_slow_down_error self response error =
     (if sublist slow_down_text error then
        (case retry_after_header response of
           Absent \<Rightarrow>
             (Inl (TypeError (''int() argument must be a string, a bytes-like object or a real number, not ''
                @ quoted ''NoneType'')),
              self)
         | Malformed raw \<Rightarrow>
             (Inl (ValueError (''invalid literal for int() with base 10: '' @ quoted raw)),
              self)
         | Seconds sec \<Rightarrow>
             if sec < 0 then (Inl (ValueError ''sleep length must be non-negative''), self)
             else if sleep_max < sec then
               (Inl (OverflowError ''timestamp too large to convert to C _PyTime_t''), self)
             else (Inr True, self\<lparr>slept := slept self @ [sec]\<rparr>))
      else (Inr False, self))"

text \<open>
  One pass through the body of a \<^verbatim>\<open>while True\<close> loop ends in \<^verbatim>\<open>continue\<close>
  (or falls off the end of the body), in \<^verbatim>\<open>return\<close> or in \<^verbatim>\<open>raise\<close>. The loop
  may run forever: it is a partial function, and \<open>None\<close> is the call that never
  returns.
\<close>

datatype ('s, 'a) iteration = Continue 's | Return 'a monica | Raise error monica

partial_function (option) while_true ::
  "('s \<Rightarrow> ('s, 'a) iteration) \<Rightarrow> 's \<Rightarrow> ((error + 'a) \<times> monica) option" where
  "while_true body s =
     (case body s of
        Continue s' \<Rightarrow> while_true body s'
      | Return a self \<Rightarrow> Some (Inr a, self)
      | Raise e self \<Rightarrow> Some (Inl e, self))"

text \<open>
  The \<^verbatim>\<open>else\<close> branch every loop body shares:
  \<^verbatim>\<open>error = response.json()['error']['message']\<close>, then \<^verbatim>\<open>continue\<close> if
  \<^verbatim>\<open>__is_slow_down_error\<close> says so, otherwise the statements \<open>terminal\<close> of the one
  operation. \<open>locals\<close> puts the loop's local variables back beside \<^verbatim>\<open>self\<close>.
\<close>

definition failed_response ::
  "monica \<Rightarrow> 'd response \<Rightarrow> (monica \<Rightarrow> 's) \<Rightarrow> (string \<Rightarrow> monica \<Rightarrow> ('s, 'a) iteration)
     \<Rightarrow> ('s, 'a) iteration" where
  "failed_response self response locals terminal =
     (let error = error_message response in
      case is_slow_down_error self response error of
        (Inl e, self) \<Rightarrow> Raise e self
      | (Inr slow, self) \<Rightarrow> if slow then Continue (locals self) else terminal error self)"

definition dict_set :: "'k \<Rightarrow> 'v \<Rightarrow> ('k \<times> 'v) list \<Rightarrow> ('k \<times> 'v) list" where
  "dict_set k v d = AList.update k v d"

definition dict_of :: "('k \<times> 'v) list \<Rightarrow> ('k \<times> 'v) list" where
  "dict_of items = fold (\<lambda>(k, v). dict_set k v) items []"

definition mark_updated :: "pyid \<Rightarrow> monica \<Rightarrow> monica" where
  "mark_updated monica_id self =
     self\<lparr>updated_contacts := dict_set monica_id True (updated_contacts self)\<rparr>"

section \<open>Lookup tables\<close>

definition get_gender_mapping_body ::
  "(nat \<Rightarrow> gender list response) \<Rightarrow> monica \<Rightarrow> (monica, (string \<times> int) list) iteration" where
  "get_gender_mapping_body remote self =
     (let (response, self) = request remote self in
      if status_code response = 200 then
        (let genders = json_data response;
             gender_mapping = dict_of (map (\<lambda>gender. (gender_type gender, gender_ident gender)) genders);
             self = self\<lparr>gender_mapping := gender_mapping\<rparr>
         in Return (monica.gender_mapping self) self)
      else failed_response self response id
        (\<lambda>error self.
           let self = log_error (Msg (''Failed to fetch genders from Monica: '' @ error)) self
           in Raise (MonicaFetchError ''Error fetching genders from Monica!'') self))"

definition get_gender_mapping ::
  "(nat \<Rightarrow> gender list response) \<Rightarrow> monica \<Rightarrow> ((error + (string \<times> int) list) \<times> monica) option" where
  "get_gender_mapping remote self =
     (if gender_mapping self \<noteq> [] then Some (Inr (gender_mapping self), self)
      else while_true (get_gender_mapping_body remote) self)"

definition get_contact_field_types_body ::
  "(nat \<Rightarrow> field_type list response) \<Rightarrow> monica \<Rightarrow> (monica, (string \<times> int) list) iteration" where
  "get_contact_field_types_body remote self =
     (let (response, self) = request remote self in
      if status_code response = 200 then
        (let contact_field_types = json_data response;
             contact_field_type_mapping =
               dict_of (map (\<lambda>field. (field_type_type field, field_type_ident field))
                 contact_field_types);
             self = self\<lparr>contact_field_type_mapping := contact_field_type_mapping\<rparr>
         in Return (monica.contact_field_type_mapping self) self)
      else failed_response self response id
        (\<lambda>error self.
           let self = log_error
                 (Msg (''Failed to fetch contact field types from Monica: '' @ error)) self
           in Raise (MonicaFetchError ''Error fetching contact field types from Monica!'') self))"

definition get_contact_field_types ::
  "(nat \<Rightarrow> field_type list response) \<Rightarrow> monica \<Rightarrow> ((error + (string \<times> int) list) \<times> monica) option" where
  "get_contact_field_types remote self = while_true (get_contact_field_types_body remote) self"

text \<open>
  \<^verbatim>\<open>Monica.get_contact_field_id\<close>: \<^verbatim>\<open>not field_id\<close> holds for a missing key and
  for the id 0.
\<close>

definition lookup_field_id :: "string \<Rightarrow> monica \<Rightarrow> (error + int) \<times> monica" where
  "lookup_field_id type_name self =
     (case map_of (contact_field_type_mapping self) type_name of
        None \<Rightarrow>
          (Inl (InternalError (''Could not find an id for contact field type '' @ quoted type_name)),
           self)
      | Some field_id \<Rightarrow>
          if field_id = 0 then
            (Inl (InternalError (''Could not find an id for contact field type '' @ quoted type_name)),
             self)
          else (Inr field_id, self))"

definition get_contact_field_id ::
  "(nat \<Rightarrow> field_type list response) \<Rightarrow> string \<Rightarrow> monica \<Rightarrow> ((error + int) \<times> monica) option" where
  "get_contact_field_id remote type_name self =
     (if contact_field_type_mapping self = [] then
        (case get_contact_field_types remote self of
           None \<Rightarrow> None
         | Some (Inl e, self) \<Rightarrow> Some (Inl e, self)
         | Some (Inr _, self) \<Rightarrow> Some (lookup_field_id type_name self))
      else Some (lookup_field_id type_name self))"

section \<open>Contacts\<close>

definition update_contact_body ::
  "(nat \<Rightarrow> contact response) \<Rightarrow> pyid \<Rightarrow> upload_form \<Rightarrow> string \<Rightarrow> monica
     \<Rightarrow> (monica, unit) iteration" where
  "update_contact_body remote monica_id data name self =
     (let (response, self) = request remote self in
      if status_code response = 200 then
        (let contact = json_data response;
             self = mark_updated monica_id self;
             self = self\<lparr>contacts := contacts self @ [contact]\<rparr>;
             name = complete_name contact;
             self = log_info (Msg (who name monica_id @ '': Contact updated successfully'')) self;
             self = self\<lparr>database :=
                      Database_update monica_id (updated_at contact)
                        (Some (complete_name contact)) (database self)\<rparr>
         in Return () self)
      else failed_response self response id
        (\<lambda>error self.
           let self = log_error
                 (Msg (who name monica_id @ '': Error updating Monica contact: '' @ error
                       @ ''. Does it exist?'')) self;
               self = log_error (MsgForm ''Monica form data: '' data) self
           in Raise (MonicaFetchError ''Error updating Monica contact!'') self))"

definition update_contact ::
  "(nat \<Rightarrow> contact response) \<Rightarrow> pyid \<Rightarrow> upload_form \<Rightarrow> monica
     \<Rightarrow> ((error + unit) \<times> monica) option" where
  "update_contact remote monica_id data self =
     (let name = first_name data @ '' '' @ str_opt (last_name data);
          self = self\<lparr>contacts :=
                   [c \<leftarrow> contacts self. str_id (contact_id c) \<noteq> str_id monica_id]\<rparr>
      in while_true (update_contact_body remote monica_id data name) self)"

definition delete_contact_body ::
  "(nat \<Rightarrow> 'd response) \<Rightarrow> pyid \<Rightarrow> string \<Rightarrow> monica \<Rightarrow> (monica, unit) iteration" where
  "delete_contact_body remote monica_id name self =
     (let (response, self) = request remote self in
      if status_code response = 200 then
        (let self = self\<lparr>contacts :=
                      [c \<leftarrow> contacts self. str_id (contact_id c) \<noteq> str_id monica_id]\<rparr>;
             self = self\<lparr>deleted_contacts := dict_set monica_id True (deleted_contacts self)\<rparr>
         in Return () self)
      else failed_response self response id
        (\<lambda>error self.
           let self = log_error
                 (Msg (who name monica_id @ '': Failed to complete delete request: '' @ error))
                 self
           in Raise (MonicaFetchError ''Error deleting Monica contact!'') self))"

definition delete_contact ::
  "(nat \<Rightarrow> 'd response) \<Rightarrow> pyid \<Rightarrow> string \<Rightarrow> monica \<Rightarrow> ((error + unit) \<times> monica) option" where
  "delete_contact remote monica_id name self =
     while_true (delete_contact_body remote monica_id name) self"

definition create_contact_body ::
  "(nat \<Rightarrow> contact response) \<Rightarrow> upload_form \<Rightarrow> string \<Rightarrow> monica
     \<Rightarrow> (monica, contact) iteration" where
  "create_contact_body remote data reference_id self =
     (let (response, self) = request remote self in
      if status_code response = 201 then
        (let contact = json_data response;
             self = self\<lparr>created_contacts :=
                      dict_set (contact_id contact) True (created_contacts self)\<rparr>;
             self = self\<lparr>contacts := contacts self @ [contact]\<rparr>;
             self = log_info
                 (Msg (who reference_id (contact_id contact) @ '': Contact created successfully''))
                 self
         in Return contact self)
      else failed_response self response id
        (\<lambda>error self.
           let self = log_info
                 (Msg (quoted reference_id @ '': Error creating Monica contact: '' @ error)) self
           in Raise (MonicaFetchError ''Error creating Monica contact!'') self))"

definition create_contact ::
  "(nat \<Rightarrow> contact response) \<Rightarrow> upload_form \<Rightarrow> string \<Rightarrow> monica
     \<Rightarrow> ((error + contact) \<times> monica) option" where
  "create_contact remote data reference_id self =
     while_true (create_contact_body remote data reference_id) self"




text \<open>
  \<^verbatim>\<open>Monica.get_contact\<close>: indexing the filtered one-element list raises IndexError
  when the filter dropped the contact; the two \<^verbatim>\<open>except\<close> clauses follow the loop.
\<close>

definition get_contact_body ::
  "(nat \<Rightarrow> contact response) \<Rightarrow> monica \<Rightarrow> (monica, contact) iteration" where
  "get_contact_body remote self =
     (let (response, self) = request remote self in
      if status_code response = 200 then
        (let monica_contact = json_data response in
         case filter_contacts_by_label self [monica_contact] of
           [] \<Rightarrow> Raise (IndexError ''list index out of range'') self
         | monica_contact # _ \<Rightarrow>
             Return monica_contact (self\<lparr>contacts := contacts self @ [monica_contact]\<rparr>))
      else failed_response self response id
        (\<lambda>error self. Raise (MonicaFetchError error) self))"

fun get_contact_except ::
  "pyid \<Rightarrow> (error + contact) \<times> monica \<Rightarrow> (error + contact) \<times> monica" where
  "get_contact_except monica_id (Inr c, self) = (Inr c, self)"
| "get_contact_except monica_id (Inl (IndexError m), self) =
     (let msg = ''Contact processing of '' @ quoted (str_id monica_id)
                @ '' not allowed by label filter'';
          self = log_info (Msg msg) self
      in (Inl (InternalError msg), self))"
| "get_contact_except monica_id (Inl e, self) =
     (let msg = ''Failed to fetch Monica contact '' @ quoted (str_id monica_id) @ '': ''
                @ str_error e;
          self = log_error (Msg msg) self
      in (Inl (MonicaFetchError msg), self))"

definition get_contact ::
  "(nat \<Rightarrow> contact response) \<Rightarrow> pyid \<Rightarrow> monica \<Rightarrow> ((error + contact) \<times> monica) option" where
  "get_contact remote monica_id self =
     (let monica_contact_list =
            [c \<leftarrow> contacts self. str_id (contact_id c) = str_id monica_id]
      in if contacts self \<noteq> [] \<and> monica_contact_list \<noteq> []
         then Some (Inr (hd monica_contact_list), self)
         else map_option (get_contact_except monica_id)
                (while_true (get_contact_body remote) self))"

text \<open>
  \<^verbatim>\<open>Monica.update_career\<close>: after the warning the body ends without
  \<^verbatim>\<open>return\<close> or \<^verbatim>\<open>raise\<close>, so the loop goes round again.
\<close>

definition update_career_body ::
  "(nat \<Rightarrow> contact response) \<Rightarrow> pyid \<Rightarrow> string \<Rightarrow> monica \<Rightarrow> (monica, unit) iteration" where
  "update_career_body remote monica_id name self =
     (let (response, self) = request remote self in
      if status_code response = 200 then
        (let self = mark_updated monica_id self;
             contact = json_data response;
             self = log_info
                 (Msg (who name monica_id @ '': Company and job title updated successfully''))
                 self;
             self = self\<lparr>database :=
                      Database_update monica_id (updated_at contact) None (database self)\<rparr>
         in Return () self)
      else failed_response self response id
        (\<lambda>error self.
           let self = log_warning
                 (Msg (who name monica_id @ '': Error updating Monica contact career info: ''
                       @ error)) self
           in Continue self))"

definition update_career ::
  "(nat \<Rightarrow> contact response) \<Rightarrow> pyid \<Rightarrow> 'f \<Rightarrow> monica \<Rightarrow> ((error + unit) \<times> monica) option" where
  "update_career remote monica_id data self =
     (case get_contact remote monica_id self of
        None \<Rightarrow> None
      | Some (Inl e, self) \<Rightarrow> Some (Inl e, self)
      | Some (Inr contact, self) \<Rightarrow>
          (let name = complete_name contact
           in while_true (update_career_body remote monica_id name) self))"

section \<open>Notes, tags, addresses and contact fields\<close>



definition add_note_body ::
  "(nat \<Rightarrow> monica_note response) \<Rightarrow> 'f owned_form_scheme \<Rightarrow> string \<Rightarrow> monica
     \<Rightarrow> (monica, unit) iteration" where
  "add_note_body remote data name self =
     (let monica_id = contact_id_of data;
          (response, self) = request remote self in
      if status_code response = 201 then
        (let self = mark_updated monica_id self;
             note = json_data response;
             note_id = note_ident note;
             self = log_info
                 (Msg (who name monica_id @ '': Note '' @ quoted (str_id note_id)
                       @ '' created successfully'')) self
         in Return () self)
      else failed_response self response id
        (\<lambda>error self. Raise (MonicaFetchError (who name monica_id @ '': Error creating Monica note: '' @ error)) self))"

definition add_note ::
  "(nat \<Rightarrow> monica_note response) \<Rightarrow> 'f owned_form_scheme \<Rightarrow> string \<Rightarrow> monica
     \<Rightarrow> ((error + unit) \<times> monica) option" where
  "add_note remote data name self = while_true (add_note_body remote data name) self"

definition update_note_body ::
  "(nat \<Rightarrow> monica_note response) \<Rightarrow> pyid \<Rightarrow> 'f owned_form_scheme \<Rightarrow> string \<Rightarrow> monica
     \<Rightarrow> (monica, unit) iteration" where
  "update_note_body remote note_id data name self =
     (let monica_id = contact_id_of data;
          (response, self) = request remote self in
      if status_code response = 200 then
        (let self = mark_updated monica_id self;
             note = json_data response;
             note_id = note_ident note;
             self = log_info
                 (Msg (who name monica_id @ '': Note '' @ quoted (str_id note_id)
                       @ '' updated successfully'')) self
         in Return () self)
      else failed_response self response id
        (\<lambda>error self. Raise (MonicaFetchError (who name monica_id @ '': Error updating Monica note: '' @ error)) self))"

definition update_note ::
  "(nat \<Rightarrow> monica_note response) \<Rightarrow> pyid \<Rightarrow> 'f owned_form_scheme \<Rightarrow> string \<Rightarrow> monica
     \<Rightarrow> ((error + unit) \<times> monica) option" where
  "update_note remote note_id data name self = while_true (update_note_body remote note_id data name) self"

definition delete_note_body ::
  "(nat \<Rightarrow> 'd response) \<Rightarrow> pyid \<Rightarrow> pyid \<Rightarrow> string \<Rightarrow> monica
     \<Rightarrow> (monica, unit) iteration" where
  "delete_note_body remote note_id monica_id name self =
     (let (response, self) = request remote self in
      if status_code response = 200 then
        (let self = mark_updated monica_id self;
             self = log_info
                 (Msg (who name monica_id @ '': Note '' @ quoted (str_id note_id)
                       @ '' deleted successfully'')) self
         in Return () self)
      else failed_response self response id
        (\<lambda>error self. Raise (MonicaFetchError (who name monica_id @ '': Error deleting Monica note: '' @ error)) self))"

definition delete_note ::
  "(nat \<Rightarrow> 'd response) \<Rightarrow> pyid \<Rightarrow> pyid \<Rightarrow> string \<Rightarrow> monica
     \<Rightarrow> ((error + unit) \<times> monica) option" where
  "delete_note remote note_id monica_id name self = while_true (delete_note_body remote note_id monica_id name) self"

definition remove_tags_body ::
  "(nat \<Rightarrow> 'd response) \<Rightarrow> 'f tags_form_scheme \<Rightarrow> pyid \<Rightarrow> string \<Rightarrow> monica
     \<Rightarrow> (monica, unit) iteration" where
  "remove_tags_body remote data monica_id name self =
     (let (response, self) = request remote self in
      if status_code response = 200 then
        (let self = mark_updated monica_id self;
             self = log_info
                 (MsgTags (who name monica_id @ '': Label(s) with id '') (form_tags data)
                    '' removed successfully'') self
         in Return () self)
      else failed_response self response id
        (\<lambda>error self. Raise (MonicaFetchError (who name monica_id @ '': Error removing Monica labels: '' @ error)) self))"

definition remove_tags ::
  "(nat \<Rightarrow> 'd response) \<Rightarrow> 'f tags_form_scheme \<Rightarrow> pyid \<Rightarrow> string \<Rightarrow> monica
     \<Rightarrow> ((error + unit) \<times> monica) option" where
  "remove_tags remote data monica_id name self = while_true (remove_tags_body remote data monica_id name) self"

definition add_tags_body ::
  "(nat \<Rightarrow> 'd response) \<Rightarrow> 'f tags_form_scheme \<Rightarrow> pyid \<Rightarrow> string \<Rightarrow> monica
     \<Rightarrow> (monica, unit) iteration" where
  "add_tags_body remote data monica_id name self =
     (let (response, self) = request remote self in
      if status_code response = 200 then
        (let self = mark_updated monica_id self;
             self = log_info
                 (MsgTags (who name monica_id @ '': Labels '') (form_tags data)
                    '' assigned successfully'') self
         in Return () self)
      else failed_response self response id
        (\<lambda>error self. Raise (MonicaFetchError (who name monica_id @ '': Error assigning Monica labels: '' @ error)) self))"

definition add_tags ::
  "(nat \<Rightarrow> 'd response) \<Rightarrow> 'f tags_form_scheme \<Rightarrow> pyid \<Rightarrow> string \<Rightarrow> monica
     \<Rightarrow> ((error + unit) \<times> monica) option" where
  "add_tags remote data monica_id name self = while_true (add_tags_body remote data monica_id name) self"

definition delete_address_body ::
  "(nat \<Rightarrow> 'd response) \<Rightarrow> pyid \<Rightarrow> pyid \<Rightarrow> string \<Rightarrow> monica
     \<Rightarrow> (monica, unit) iteration" where
  "delete_address_body remote address_id monica_id name self =
     (let (response, self) = request remote self in
      if status_code response = 200 then
        (let self = mark_updated monica_id self;
             self = log_info
                 (Msg (who name monica_id @ '': Address '' @ quoted (str_id address_id)
                       @ '' deleted successfully'')) self
         in Return () self)
      else failed_response self response id
        (\<lambda>error self. Raise (MonicaFetchError (who name monica_id @ '': Error deleting address '' @ quoted (str_id address_id)
              @ '': '' @ error)) self))"

definition delete_address ::
  "(nat \<Rightarrow> 'd response) \<Rightarrow> pyid \<Rightarrow> pyid \<Rightarrow> string \<Rightarrow> monica
     \<Rightarrow> ((error + unit) \<times> monica) option" where
  "delete_address remote address_id monica_id name self = while_true (delete_address_body remote address_id monica_id name) self"

definition create_address_body ::
  "(nat \<Rightarrow> address response) \<Rightarrow> 'f owned_form_scheme \<Rightarrow> string \<Rightarrow> monica
     \<Rightarrow> (monica, unit) iteration" where
  "create_address_body remote data name self =
     (let monica_id = contact_id_of data;
          (response, self) = request remote self in
      if status_code response = 201 then
        (let self = mark_updated monica_id self;
             address = json_data response;
             address_id = address_ident address;
             self = log_info
                 (Msg (who name monica_id @ '': Address '' @ quoted (str_id address_id)
                       @ '' created successfully'')) self
         in Return () self)
      else failed_response self response id
        (\<lambda>error self. Raise (MonicaFetchError (who name monica_id @ '': Error creating Monica address: '' @ error)) self))"

definition create_address ::
  "(nat \<Rightarrow> address response) \<Rightarrow> 'f owned_form_scheme \<Rightarrow> string \<Rightarrow> monica
     \<Rightarrow> ((error + unit) \<times> monica) option" where
  "create_address remote data name self = while_true (create_address_body remote data name) self"



definition create_contact_field_body ::
  "(nat \<Rightarrow> contact_field response) \<Rightarrow> pyid \<Rightarrow> 'f \<Rightarrow> string \<Rightarrow> monica
     \<Rightarrow> (monica, unit) iteration" where
  "create_contact_field_body remote monica_id data name self =
     (let (response, self) = request remote self in
      if status_code response = 201 then
        (let self = mark_updated monica_id self;
             contact_field = json_data response;
             field_id = contact_field_ident contact_field;
             type_desc = contact_field_type_type contact_field;
             self = log_info
                 (Msg (who name monica_id @ '': Contact field '' @ quoted (str_id field_id)
                       @ '' ('' @ type_desc @ '') created successfully'')) self
         in Return () self)
      else failed_response self response id
        (\<lambda>error self. Raise (MonicaFetchError (who name monica_id @ '': Error creating Monica contact field: '' @ error)) self))"

definition create_contact_field ::
  "(nat \<Rightarrow> contact_field response) \<Rightarrow> pyid \<Rightarrow> 'f \<Rightarrow> string \<Rightarrow> monica
     \<Rightarrow> ((error + unit) \<times> monica) option" where
  "create_contact_field remote monica_id data name self = while_true (create_contact_field_body remote monica_id data name) self"

definition delete_contact_field_body ::
  "(nat \<Rightarrow> 'd response) \<Rightarrow> pyid \<Rightarrow> pyid \<Rightarrow> string \<Rightarrow> monica
     \<Rightarrow> (monica, unit) iteration" where
  "delete_contact_field_body remote field_id monica_id name self =
     (let (response, self) = request remote self in
      if status_code response = 200 then
        (let self = mark_updated monica_id self;
             self = log_info
                 (Msg (who name monica_id @ '': Contact field '' @ quoted (str_id field_id)
                       @ '' deleted successfully'')) self
         in Return () self)
      else failed_response self response id
        (\<lambda>error self. Raise (MonicaFetchError (who name monica_id @ '': Error deleting Monica contact field ''
              @ quoted (str_id field_id) @ '': '' @ error)) self))"

definition delete_contact_field ::
  "(nat \<Rightarrow> 'd response) \<Rightarrow> pyid \<Rightarrow> pyid \<Rightarrow> string \<Rightarrow> monica
     \<Rightarrow> ((error + unit) \<times> monica) option" where
  "delete_contact_field remote field_id monica_id name self = while_true (delete_contact_field_body remote field_id monica_id name) self"

section \<open>The upload form\<close>

text \<open>
  \<^verbatim>\<open>MonicaContactUploadForm.__init__\<close>: the gender id is looked up in the
  dictionary \<^verbatim>\<open>get_gender_mapping\<close> returns; a key that is not there raises
  KeyError.
\<close>

definition MonicaContactUploadForm ::
  "(nat \<Rightarrow> gender list response) \<Rightarrow> monica \<Rightarrow> form_args
     \<Rightarrow> ((error + upload_form) \<times> monica) option" where
  "MonicaContactUploadForm remote monica args =
     (case get_gender_mapping remote monica of
        None \<Rightarrow> None
      | Some (Inl e, monica) \<Rightarrow> Some (Inl e, monica)
      | Some (Inr mapping, monica) \<Rightarrow>
          (case map_of mapping (arg_gender_type args) of
             None \<Rightarrow> Some (Inl (KeyError (arg_gender_type args)), monica)
           | Some looked_up \<Rightarrow>
               Some (Inr
                 \<lparr>first_name = arg_first_name args,
                  last_name = arg_last_name args,
                  nickname = arg_nick_name args,
                  middle_name = arg_middle_name args,
                  gender_id = looked_up,
                  birthdate_day = arg_birthdate_day args,
                  birthdate_month = arg_birthdate_month args,
                  birthdate_year = arg_birthdate_year args,
                  birthdate_is_age_based = arg_is_birthdate_age_based args,
                  deceased_date_add_reminder = arg_create_reminders args,
                  birthdate_add_reminder = arg_create_reminders args,
                  is_birthdate_known = arg_is_birthdate_known args,
                  is_deceased = arg_is_deceased args,
                  is_deceased_date_known = arg_is_deceased_date_known args,
                  deceased_date_day = arg_deceased_day args,
                  deceased_date_month = arg_deceased_month args,
                  deceased_date_year = arg_deceased_year args,
                  deceased_date_is_age_based = arg_deceased_age_based args\<rparr>, monica)))"

section \<open>Notions used to state the properties\<close>

text \<open>
  The pass of a loop body that ended the loop with the given result.
\<close>

definition ends_with :: "('s \<Rightarrow> ('s, 'a) iteration) \<Rightarrow> 's \<Rightarrow> (error + 'a) \<times> monica \<Rightarrow> bool" where
  "ends_with body t r =
     (case r of (Inr a, m) \<Rightarrow> body t = Return a m | (Inl e, m) \<Rightarrow> body t = Raise e m)"

text \<open>
  A response is rate-limited for an operation when it does not carry the operation's
  success status and its error message contains the slow-down text; it is retried when
  in addition the Retry-After header is an integer that \<^verbatim>\<open>time.sleep\<close> takes, the
  seconds to wait. \<open>wait\<close> is what the object has done when it comes round to the next
  request. \<open>header_error\<close> is the exception of \<^verbatim>\<open>__is_slow_down_error\<close> for any
  other header. \<open>standard\<close> describes the loop bodies that return on the success
  status, raise the fetch error on any other response that is not rate-limited, retry
  on a retried response and raise the header's exception on a rate-limited response
  that is not retried.
\<close>

definition rate_limited :: "int \<Rightarrow> 'd response \<Rightarrow> bool" where
  "rate_limited ok r \<longleftrightarrow> status_code r \<noteq> ok \<and> sublist slow_down_text (error_message r)"

definition retry_seconds :: "'d response \<Rightarrow> int option" where
  "retry_seconds r =
     (case retry_after_header r of
        Seconds sec \<Rightarrow> if sec < 0 \<or> sleep_max < sec then None else Some sec
      | _ \<Rightarrow> None)"

definition retried :: "int \<Rightarrow> 'd response \<Rightarrow> bool" where
  "retried ok r \<longleftrightarrow> rate_limited ok r \<and> retry_seconds r \<noteq> None"

definition wait :: "int \<Rightarrow> monica \<Rightarrow> monica" where
  "wait sec self =
     self\<lparr>api_requests := Suc (api_requests self), slept := slept self @ [sec]\<rparr>"

definition header_error :: "'d response \<Rightarrow> error" where
  "header_error r =
     (case retry_after_header r of
        Absent \<Rightarrow>
          TypeError (''int() argument must be a string, a bytes-like object or a real number, not ''
            @ quoted ''NoneType'')
      | Malformed raw \<Rightarrow> ValueError (''invalid literal for int() with base 10: '' @ quoted raw)
      | Seconds sec \<Rightarrow>
          if sec < 0 then ValueError ''sleep length must be non-negative''
          else OverflowError ''timestamp too large to convert to C _PyTime_t'')"

definition standard ::
  "int \<Rightarrow> (nat \<Rightarrow> 'd response) \<Rightarrow> (monica \<Rightarrow> (monica, 'a) iteration) \<Rightarrow> bool" where
  "standard ok remote body \<longleftrightarrow>
     (\<forall>self.
        (status_code (remote (api_requests self)) = ok \<longrightarrow>
           (\<exists>x m. body self = Return x m \<and> api_requests m = Suc (api_requests self)
              \<and> slept m = slept self))
      \<and> (status_code (remote (api_requests self)) \<noteq> ok
           \<and> \<not> sublist slow_down_text (error_message (remote (api_requests self))) \<longrightarrow>
           (\<exists>msg m. body self = Raise (MonicaFetchError msg) m
              \<and> api_requests m = Suc (api_requests self) \<and> slept m = slept self))
      \<and> (\<forall>sec. rate_limited ok (remote (api_requests self))
             \<and> retry_seconds (remote (api_requests self)) = Some sec \<longrightarrow>
             body self = Continue (wait sec self))
      \<and> (rate_limited ok (remote (api_requests self))
           \<and> retry_seconds (remote (api_requests self)) = None \<longrightarrow>
           (\<exists>m. body self = Raise (header_error (remote (api_requests self))) m
              \<and> api_requests m = Suc (api_requests self) \<and> slept m = slept self)))"

text \<open>
  The remote accepts the request issued at \<open>a\<close> when, after some number of retried
  rate-limit responses, it answers with the success status; it rejects it when the
  first response that is not retried is neither a success nor rate-limited.
\<close>

definition retried_until :: "int \<Rightarrow> (nat \<Rightarrow> 'd response) \<Rightarrow> nat \<Rightarrow> nat \<Rightarrow> bool" where
  "retried_until ok remote a n \<longleftrightarrow> (\<forall>k<n. retried ok (remote (a + k)))"

definition accepted :: "int \<Rightarrow> (nat \<Rightarrow> 'd response) \<Rightarrow> nat \<Rightarrow> bool" where
  "accepted ok remote a \<longleftrightarrow>
     (\<exists>n. retried_until ok remote a n \<and> status_code (remote (a + n)) = ok)"

definition rejected :: "int \<Rightarrow> (nat \<Rightarrow> 'd response) \<Rightarrow> nat \<Rightarrow> bool" where
  "rejected ok remote a \<longleftrightarrow>
     (\<exists>n. retried_until ok remote a n \<and> status_code (remote (a + n)) \<noteq> ok
        \<and> \<not> sublist slow_down_text (error_message (remote (a + n))))"

text \<open>
  A loop body keeps an attribute of the object when no pass through it changes the
  attribute, however the pass ends.
\<close>

definition keeps :: "(monica \<Rightarrow> 'x) \<Rightarrow> (monica \<Rightarrow> (monica, 'a) iteration) \<Rightarrow> bool" where
  "keeps f body \<longleftrightarrow>
     (\<forall>t. case body t of
            Continue u \<Rightarrow> f u = f t
          | Return x m \<Rightarrow> f m = f t
          | Raise e m \<Rightarrow> f m = f t)"

text \<open>
  The dictionary the constructor of the upload form builds from its arguments and a
  gender id.
\<close>

definition form_of :: "form_args \<Rightarrow> int \<Rightarrow> upload_form" where
  "form_of args gid =
     \<lparr>first_name = arg_first_name args,
      last_name = arg_last_name args,
      nickname = arg_nick_name args,
      middle_name = arg_middle_name args,
      gender_id = gid,
      birthdate_day = arg_birthdate_day args,
      birthdate_month = arg_birthdate_month args,
      birthdate_year = arg_birthdate_year args,
      birthdate_is_age_based = arg_is_birthdate_age_based args,
      deceased_date_add_reminder = arg_create_reminders args,
      birthdate_add_reminder = arg_create_reminders args,
      is_birthdate_known = arg_is_birthdate_known args,
      is_deceased = arg_is_deceased args,
      is_deceased_date_known = arg_is_deceased_date_known args,
      deceased_date_day = arg_deceased_day args,
      deceased_date_month = arg_deceased_month args,
      deceased_date_year = arg_deceased_year args,
      deceased_date_is_age_based = arg_deceased_age_based args\<rparr>"

text \<open>
  The message \<^verbatim>\<open>get_contact\<close> logs and raises for a contact the label filter
  drops.
\<close>

definition excluded_text :: "pyid \<Rightarrow> string" where
  "excluded_text monica_id =
     ''Contact processing of '' @ quoted (str_id monica_id) @ '' not allowed by label filter''"

text \<open>The warning \<^verbatim>\<open>update_career\<close> logs for a response it gives up on.\<close>

definition career_warning :: "string \<Rightarrow> pyid \<Rightarrow> string \<Rightarrow> message" where
  "career_warning name monica_id error =
     Msg (who name monica_id @ '': Error updating Monica contact career info: '' @ error)"

text \<open>
  The remote answers from request \<open>a\<close> on when some response from then on is not a
  retried rate-limit response.
\<close>

definition answers :: "int \<Rightarrow> (nat \<Rightarrow> 'd response) \<Rightarrow> nat \<Rightarrow> bool" where
  "answers ok remote a \<longleftrightarrow> (\<exists>k\<ge>a. \<not> retried ok (remote k))"

text \<open>
  The seconds the object sleeps over the \<open>n\<close> responses from request \<open>a\<close> on: the
  Retry-After of every retried response among them, in their order. \<open>waited\<close> is the
  object after it has issued \<open>n\<close> requests that were all answered by retried
  responses.
\<close>

definition waits :: "int \<Rightarrow> (nat \<Rightarrow> 'd response) \<Rightarrow> nat \<Rightarrow> nat \<Rightarrow> int list" where
  "waits ok remote a n =
     concat (map (\<lambda>k. if rate_limited ok (remote k)
                      then (case retry_seconds (remote k) of None \<Rightarrow> [] | Some sec \<Rightarrow> [sec])
                      else [])
               [a..<a + n])"

definition waited :: "int \<Rightarrow> (nat \<Rightarrow> 'd response) \<Rightarrow> nat \<Rightarrow> monica \<Rightarrow> monica" where
  "waited ok remote n self =
     self\<lparr>api_requests := api_requests self + n,
          slept := slept self @ waits ok remote (api_requests self) n\<rparr>"



definition ends_after :: "int \<Rightarrow> (nat \<Rightarrow> 'd response) \<Rightarrow> nat \<Rightarrow> monica \<Rightarrow> monica \<Rightarrow> bool" where
  "ends_after ok remote n self m \<longleftrightarrow>
     api_requests m = Suc (api_requests self + n)
     \<and> slept m = slept self @ waits ok remote (api_requests self) n"


text \<open>
  The result of \<^verbatim>\<open>get_contact\<close> when its loop ended with the response \<open>r\<close>: the
  contact of a success if the label filter admits it, InternalError if the filter drops
  it, and for every other response MonicaFetchError with the text of the second
  \<^verbatim>\<open>except\<close> clause, which holds the error message of the response or, for a
  rate-limit response that is not retried, the text of the header's exception.
\<close>

definition fetch_failed_text :: "pyid \<Rightarrow> string \<Rightarrow> string" where
  "fetch_failed_text monica_id error =
     ''Failed to fetch Monica contact '' @ quoted (str_id monica_id) @ '': '' @ error"

definition error_text :: "'d response \<Rightarrow> string" where
  "error_text r =
     (if sublist slow_down_text (error_message r) then str_error (header_error r)
      else error_message r)"

definition contact_outcome :: "monica \<Rightarrow> pyid \<Rightarrow> contact response \<Rightarrow> error + contact" where
  "contact_outcome self monica_id r =
     (if status_code r = 200 then
        (if eligible (label_include self) (label_exclude self) (json_data r)
         then Inr (json_data r)
         else Inl (InternalError (excluded_text monica_id)))
      else Inl (MonicaFetchError (fetch_failed_text monica_id (error_text r))))"














subsection \<open>Sample values\<close>

definition ada :: contact where
  "ada = \<lparr>contact_id = IdInt 1, complete_name = ''Ada Lovelace'',
          updated_at = ''2021-01-01T00:00:00Z'',
          tags = [\<lparr>label_name = ''friends''\<rparr>]\<rparr>"

definition bob :: contact where
  "bob = \<lparr>contact_id = IdInt 2, complete_name = ''Bob'',
          updated_at = ''2021-01-02T00:00:00Z'', tags = []\<rparr>"

definition form0 :: upload_form where
  "form0 =
     \<lparr>first_name = ''Ada'', last_name = Some ''Lovelace'', nickname = None,
      middle_name = None, gender_id = 3, birthdate_day = None, birthdate_month = None,
      birthdate_year = None, birthdate_is_age_based = False,
      deceased_date_add_reminder = True, birthdate_add_reminder = True,
      is_birthdate_known = False, is_deceased = False, is_deceased_date_known = False,
      deceased_date_day = None, deceased_date_month = None, deceased_date_year = None,
      deceased_date_is_age_based = None\<rparr>"

text \<open>
  Three remotes that answer every request alike: with a success, with a refusal, and
  with the rate-limit error and a Retry-After of a minute.
\<close>

definition accepting :: "int \<Rightarrow> 'd \<Rightarrow> nat \<Rightarrow> 'd response" where
  "accepting code d k =
     \<lparr>status_code = code, error_message = [], retry_after_header = Absent,
      json_data = d, meta_last_page = 1\<rparr>"

definition refusing :: "'d \<Rightarrow> nat \<Rightarrow> 'd response" where
  "refusing d k =
     \<lparr>status_code = 404, error_message = ''The contact has not been found'',
      retry_after_header = Absent, json_data = d, meta_last_page = 1\<rparr>"

definition slowing :: "'d \<Rightarrow> nat \<Rightarrow> 'd response" where
  "slowing d k =
     \<lparr>status_code = 429, error_message = slow_down_text,
      retry_after_header = Seconds 60, json_data = d, meta_last_page = 1\<rparr>"

text \<open>
  A mapping record that links Ada, the contact as the remote returns it after a
  change, and a session that has both sample contacts in its cache.
\<close>

definition link_ada :: mapping_record where
  "link_ada =
     \<lparr>sourceId = ''people/c1'', targetId = ''1'',
      sourceLastChanged = ''2021-01-01T00:00:00Z'',
      targetLastChanged = ''2021-01-01T00:00:00Z'',
      sourceDisplayName = ''Ada Lovelace'', targetDisplayName = ''Ada Lovelace''\<rparr>"

definition ada_changed :: contact where
  "ada_changed = \<lparr>contact_id = IdInt 1, complete_name = ''Ada King'',
          updated_at = ''2022-02-02T00:00:00Z'',
          tags = [\<lparr>label_name = ''friends''\<rparr>]\<rparr>"

definition session :: monica where
  "session = (Monica_init [link_ada] True [] [])\<lparr>contacts := [ada, bob]\<rparr>"

text \<open>A remote whose genders have no type \<^verbatim>\<open>O\<close>.\<close>

definition two_genders :: "gender list" where
  "two_genders = [\<lparr>gender_ident = 1, gender_type = ''M''\<rparr>,
                  \<lparr>gender_ident = 2, gender_type = ''F''\<rparr>]"

text \<open>A remote that refuses the first request and accepts every later one.\<close>

definition refuse_then_accept :: "'d \<Rightarrow> nat \<Rightarrow> 'd response" where
  "refuse_then_accept d k = (if k = 0 then refusing d k else accepting 200 d k)"

text \<open>A remote that rate-limits the first request and accepts every later one.\<close>

definition slow_then_accept :: "'d \<Rightarrow> nat \<Rightarrow> 'd response" where
  "slow_then_accept d k = (if k = 0 then slowing d k else accepting 200 d k)"

text \<open>
  A contact the remote creates under the id 5, and the session that creates it and
  then updates it under the id the mapping store keeps for it, the text \<^verbatim>\<open>5\<close>.
\<close>

definition eve :: contact where
  "eve = \<lparr>contact_id = IdInt 5, complete_name = ''Eve'',
          updated_at = ''2021-05-05T00:00:00Z'', tags = []\<rparr>"

definition create_then_update :: "((error + unit) \<times> monica) option" where
  "create_then_update =
     Option.bind
       (create_contact (accepting 201 eve) form0 ''people/c5'' (Monica_init [] True [] []))
       (\<lambda>(_, self). update_contact (accepting 200 eve) (IdStr ''5'') form0 self)"

text \<open>
  The session that creates Bob, whom the label filter of the session drops, and then
  fetches him.
\<close>

definition create_then_get :: "((error + contact) \<times> monica) option" where
  "create_then_get =
     Option.bind
       (create_contact (accepting 201 bob) form0 ''people/c2''
          (Monica_init [] True [''friends''] []))
       (\<lambda>(_, self). get_contact (accepting 200 bob) (IdStr ''2'') self)"




section \<open>Properties of the label filter\<close>

lemma list_ex_label_iff:
  "list_ex (\<lambda>l. label_name l \<in> A) ts \<longleftrightarrow> (\<exists>l \<in> set ts. label_name l \<in> A)"
  by (simp add: list_ex_iff)

lemma list_all_label_iff:
  "list_all (\<lambda>l. label_name l \<notin> A) ts \<longleftrightarrow> (\<forall>l \<in> set ts. label_name l \<notin> A)"
  by (simp add: list_all_iff)

lemma filter_contacts_by_label_filter:
  "filter_contacts_by_label self contact_list =
     filter (eligible (label_include self) (label_exclude self)) contact_list"
proof (cases "label_include self = []")
  case incl: True
  show ?thesis
  proof (cases "label_exclude self = []")
    case True
    with incl have "eligible (label_include self) (label_exclude self) c" for c
      by (simp add: eligible_def)
    with incl True show ?thesis
      by (simp add: filter_contacts_by_label_def)
  next
    case False
    have "filter (\<lambda>contact. list_all (\<lambda>l. label_name l \<notin> set (label_exclude self))
              (tags contact)) contact_list =
          filter (eligible (label_include self) (label_exclude self)) contact_list"
      by (rule filter_cong) (simp_all add: incl eligible_def list_all_label_iff)
    with incl False show ?thesis
      by (simp add: filter_contacts_by_label_def)
  qed
next
  case False
  have "filter (\<lambda>contact.
            list_ex (\<lambda>l. label_name l \<in> set (label_include self)) (tags contact)
            \<and> list_all (\<lambda>l. label_name l \<notin> set (label_exclude self)) (tags contact))
          contact_list =
        filter (eligible (label_include self) (label_exclude self)) contact_list"
    by (rule filter_cong)
      (simp_all add: False eligible_def list_all_label_iff list_ex_label_iff)
  with False show ?thesis
    by (simp add: filter_contacts_by_label_def)
qed

text \<open>
  C1. For every contact list and every include/exclude configuration the filter keeps,
  in order, exactly the contacts that satisfy the eligibility rule: the include list is
  empty or the contact carries an included label, and the contact carries no excluded
  label. With both lists empty every contact is kept; with a non-empty include list a
  contact without labels is dropped.
\<close>

theorem filter_contacts_by_label_eligible:
  "filter_contacts_by_label self contact_list =
     filter (eligible (label_include self) (label_exclude self)) contact_list
   \<and> (c \<in> set (filter_contacts_by_label self contact_list) \<longleftrightarrow>
        c \<in> set contact_list
        \<and> (label_include self = []
            \<or> (\<exists>l \<in> set (tags c). label_name l \<in> set (label_include self)))
        \<and> (\<forall>l \<in> set (tags c). label_name l \<notin> set (label_exclude self)))
   \<and> (label_include self = [] \<and> label_exclude self = [] \<longrightarrow>
        filter_contacts_by_label self contact_list = contact_list)
   \<and> (label_include self \<noteq> [] \<and> tags c = [] \<longrightarrow>
        c \<notin> set (filter_contacts_by_label self contact_list))"
proof -
  have eq: "filter_contacts_by_label self contact_list =
      filter (eligible (label_include self) (label_exclude self)) contact_list"
    by (rule filter_contacts_by_label_filter)
  have mem: "c \<in> set (filter_contacts_by_label self contact_list) \<longleftrightarrow>
        c \<in> set contact_list
        \<and> (label_include self = []
            \<or> (\<exists>l \<in> set (tags c). label_name l \<in> set (label_include self)))
        \<and> (\<forall>l \<in> set (tags c). label_name l \<notin> set (label_exclude self))"
    unfolding eq by (simp add: eligible_def)
  have both: "label_include self = [] \<and> label_exclude self = [] \<longrightarrow>
        filter_contacts_by_label self contact_list = contact_list"
    by (simp add: filter_contacts_by_label_def)
  have none: "label_include self \<noteq> [] \<and> tags c = [] \<longrightarrow>
        c \<notin> set (filter_contacts_by_label self contact_list)"
    unfolding mem by simp
  from eq mem both none show ?thesis by blast
qed

theorem filter_contacts_by_label_eligible_witness:
  "filter_contacts_by_label (Monica_init [] True [''friends''] []) [ada, bob] = [ada]
   \<and> bob \<notin> set (filter_contacts_by_label (Monica_init [] True [''friends''] []) [ada, bob])
   \<and> filter_contacts_by_label (Monica_init [] True [] []) [ada, bob] = [ada, bob]"
  using filter_contacts_by_label_eligible
    [of "Monica_init [] True [''friends''] []" "[ada, bob]" bob]
    filter_contacts_by_label_eligible [of "Monica_init [] True [] []" "[ada, bob]" bob]
  by (simp add: Monica_init_def eligible_def ada_def bob_def)

section \<open>Properties of the statistics\<close>

lemma map_of_filter_keys:
  "map_of [(k, v) \<leftarrow> xs. P k] key = (if P key then map_of xs key else None)"
  by (induction xs) auto

text \<open>
  As dictionary keys go: after \<^verbatim>\<open>update_statistics\<close> no key of the
  updated-contacts dictionary is a key of the created-contacts dictionary, the
  created-contacts dictionary is the one from before, and the items of the
  updated-contacts dictionary whose key was not created are the ones from before, in
  their order. The keys are compared as Python compares them: the number 5 and the
  text \<^verbatim>\<open>5\<close> are two keys.
\<close>

lemma update_statistics_keys:
  "fst ` set (updated_contacts (update_statistics self))
     \<inter> fst ` set (created_contacts (update_statistics self)) = {}
   \<and> created_contacts (update_statistics self) = created_contacts self
   \<and> updated_contacts (update_statistics self) =
       [(key, v) \<leftarrow> updated_contacts self. key \<notin> fst ` set (created_contacts self)]
   \<and> (\<forall>key. key \<notin> fst ` set (created_contacts self) \<longrightarrow>
        map_of (updated_contacts (update_statistics self)) key =
        map_of (updated_contacts self) key)"
proof -
  have "fst ` set (updated_contacts (update_statistics self))
     \<inter> fst ` set (created_contacts (update_statistics self)) = {}"
    by (force simp: update_statistics_def)
  moreover have "\<forall>key. key \<notin> fst ` set (created_contacts self) \<longrightarrow>
        map_of (updated_contacts (update_statistics self)) key =
        map_of (updated_contacts self) key"
    by (simp add: update_statistics_def map_of_filter_keys)
  ultimately show ?thesis
    by (simp add: update_statistics_def)
qed

section \<open>The retry loop\<close>

lemma while_true_Continue: "body s = Continue s' \<Longrightarrow> while_true body s = while_true body s'"
  by (subst while_true.simps) simp

lemma while_true_Return: "body s = Return a m \<Longrightarrow> while_true body s = Some (Inr a, m)"
  by (subst while_true.simps) simp

lemma while_true_Raise: "body s = Raise e m \<Longrightarrow> while_true body s = Some (Inl e, m)"
  by (subst while_true.simps) simp

lemma while_true_inv_aux:
  assumes "while_true body s = Some r"
  shows "\<forall>I. I s \<longrightarrow> (\<forall>u u'. I u \<longrightarrow> body u = Continue u' \<longrightarrow> I u')
              \<longrightarrow> (\<exists>t. I t \<and> ends_with body t r)"
  apply (rule while_true.raw_induct
    [where P = "\<lambda>b s r. \<forall>I. I s \<longrightarrow> (\<forall>u u'. I u \<longrightarrow> b u = Continue u' \<longrightarrow> I u')
              \<longrightarrow> (\<exists>t. I t \<and> ends_with b t r)", OF _ assms])
  subgoal premises prems for f body s r
  proof (intro allI impI)
    fix I
    assume Is: "I s" and step: "\<forall>u u'. I u \<longrightarrow> body u = Continue u' \<longrightarrow> I u'"
    show "\<exists>t. I t \<and> ends_with body t r"
    proof (cases "body s")
      case (Continue s')
      with prems(2) have "f body s' = Some r" by simp
      from prems(1) [OF this]
      have "I s' \<longrightarrow> (\<forall>u u'. I u \<longrightarrow> body u = Continue u' \<longrightarrow> I u')
              \<longrightarrow> (\<exists>t. I t \<and> ends_with body t r)"
        by (rule spec)
      moreover from Is step Continue have "I s'" by (elim allE impE) assumption+
      ultimately show ?thesis using step by (elim impE) assumption+
    next
      case (Return a m)
      with prems(2) have "r = (Inr a, m)" by simp
      with Return Is show ?thesis unfolding ends_with_def by auto
    next
      case (Raise e m)
      with prems(2) have "r = (Inl e, m)" by simp
      with Raise Is show ?thesis unfolding ends_with_def by auto
    qed
  qed
  done

lemma while_true_inv:
  assumes "while_true body s = Some r" and "I s"
    and "\<And>u u'. I u \<Longrightarrow> body u = Continue u' \<Longrightarrow> I u'"
  shows "\<exists>t. I t \<and> ends_with body t r"
proof -
  from while_true_inv_aux [OF assms(1)]
  have "I s \<longrightarrow> (\<forall>u u'. I u \<longrightarrow> body u = Continue u' \<longrightarrow> I u')
          \<longrightarrow> (\<exists>t. I t \<and> ends_with body t r)"
    by (rule spec)
  moreover have "\<forall>u u'. I u \<longrightarrow> body u = Continue u' \<longrightarrow> I u'"
    using assms(3) by (intro allI impI)
  ultimately show ?thesis using assms(2) by (elim impE) assumption+
qed

lemma while_true_None:
  assumes "I s" and "\<And>u. I u \<Longrightarrow> \<exists>u'. body u = Continue u' \<and> I u'"
  shows "while_true body s = None"
proof (cases "while_true body s")
  case None
  then show ?thesis .
next
  case (Some r)
  have "\<exists>t. I t \<and> ends_with body t r"
  proof (rule while_true_inv [where I = I, OF Some assms(1)])
    fix u u' assume "I u" "body u = Continue u'"
    with assms(2) [of u] show "I u'" by auto
  qed
  then obtain t where t: "I t" "ends_with body t r" by blast
  from assms(2) [OF t(1)] obtain u' where "body t = Continue u'" by blast
  with t(2) have False
    by (cases r; cases "fst r") (auto simp: ends_with_def)
  then show ?thesis ..
qed

lemma failed_response_cases:
  "failed_response self r locals terminal =
     (if \<not> sublist slow_down_text (error_message r) then terminal (error_message r) self
      else case retry_after_header r of
        Absent \<Rightarrow>
          Raise (TypeError (''int() argument must be a string, a bytes-like object or a real number, not ''
                @ quoted ''NoneType'')) self
      | Malformed raw \<Rightarrow>
          Raise (ValueError (''invalid literal for int() with base 10: '' @ quoted raw)) self
      | Seconds sec \<Rightarrow>
          if sec < 0 then Raise (ValueError ''sleep length must be non-negative'') self
          else if sleep_max < sec then
            Raise (OverflowError ''timestamp too large to convert to C _PyTime_t'') self
          else Continue (locals (self\<lparr>slept := slept self @ [sec]\<rparr>)))"
  by (simp add: failed_response_def is_slow_down_error_def split: retry_after.splits)

lemmas standard_unfold =
  standard_def request_def Let_def failed_response_cases rate_limited_def retry_seconds_def
  header_error_def
  wait_def mark_updated_def log_info_def log_error_def log_warning_def

lemma header_error_not_fetch: "header_error r \<noteq> MonicaFetchError msg"
  by (simp add: header_error_def split: retry_after.splits)

lemma standard_cases:
  assumes "standard ok remote body"
  obtains
    (accepted) x m where "status_code (remote (api_requests self)) = ok"
      "body self = Return x m" "api_requests m = Suc (api_requests self)"
      "slept m = slept self"
  | (rejected) msg m where "status_code (remote (api_requests self)) \<noteq> ok"
      "\<not> sublist slow_down_text (error_message (remote (api_requests self)))"
      "body self = Raise (MonicaFetchError msg) m" "api_requests m = Suc (api_requests self)"
      "slept m = slept self"
  | (retry) sec where "retried ok (remote (api_requests self))"
      "retry_seconds (remote (api_requests self)) = Some sec"
      "body self = Continue (wait sec self)"
  | (broken) e m where "rate_limited ok (remote (api_requests self))"
      "retry_seconds (remote (api_requests self)) = None"
      "body self = Raise e m" "\<forall>msg. e \<noteq> MonicaFetchError msg"
      "api_requests m = Suc (api_requests self)" "slept m = slept self"
      "e = header_error (remote (api_requests self))"
proof -
  let ?r = "remote (api_requests self)"
  from assms have st:
    "status_code ?r = ok \<longrightarrow>
       (\<exists>x m. body self = Return x m \<and> api_requests m = Suc (api_requests self)
          \<and> slept m = slept self)"
    "status_code ?r \<noteq> ok \<and> \<not> sublist slow_down_text (error_message ?r) \<longrightarrow>
       (\<exists>msg m. body self = Raise (MonicaFetchError msg) m
          \<and> api_requests m = Suc (api_requests self) \<and> slept m = slept self)"
    "\<forall>sec. rate_limited ok ?r \<and> retry_seconds ?r = Some sec \<longrightarrow>
       body self = Continue (wait sec self)"
    "rate_limited ok ?r \<and> retry_seconds ?r = None \<longrightarrow>
       (\<exists>m. body self = Raise (header_error ?r) m
          \<and> api_requests m = Suc (api_requests self) \<and> slept m = slept self)"
    unfolding standard_def by blast+
  consider "status_code ?r = ok"
    | "status_code ?r \<noteq> ok" "\<not> sublist slow_down_text (error_message ?r)"
    | sec where "rate_limited ok ?r" "retry_seconds ?r = Some sec"
    | "rate_limited ok ?r" "retry_seconds ?r = None"
    unfolding rate_limited_def by (cases "retry_seconds ?r") auto
  then show ?thesis
  proof cases
    case 1
    with st(1) show ?thesis using accepted by blast
  next
    case 2
    with st(2) show ?thesis using rejected by blast
  next
    case (3 sec)
    with st(3) have "body self = Continue (wait sec self)" by blast
    moreover from 3 have "retried ok ?r" by (simp add: retried_def)
    ultimately show ?thesis using retry 3 by blast
  next
    case 4
    with st(4) show ?thesis using broken header_error_not_fetch by blast
  qed
qed

lemma standard_retry:
  assumes "standard ok remote body"
    and "rate_limited ok (remote (api_requests self))"
    and "retry_seconds (remote (api_requests self)) = Some sec"
  shows "while_true body self = while_true body (wait sec self)"
proof -
  from assms have "body self = Continue (wait sec self)"
    unfolding standard_def by blast
  then show ?thesis by (rule while_true_Continue)
qed

lemma standard_accepted:
  assumes "standard ok remote body"
    and "status_code (remote (api_requests self)) = ok"
  shows "\<exists>x m. while_true body self = Some (Inr x, m)"
proof -
  from assms obtain x m where "body self = Return x m"
    unfolding standard_def by blast
  then have "while_true body self = Some (Inr x, m)" by (rule while_true_Return)
  then show ?thesis by blast
qed

lemma standard_rejected:
  assumes "standard ok remote body"
    and "status_code (remote (api_requests self)) \<noteq> ok"
    and "\<not> sublist slow_down_text (error_message (remote (api_requests self)))"
  shows "\<exists>msg m. while_true body self = Some (Inl (MonicaFetchError msg), m)"
proof -
  from assms obtain msg m where "body self = Raise (MonicaFetchError msg) m"
    unfolding standard_def by blast
  then have "while_true body self = Some (Inl (MonicaFetchError msg), m)"
    by (rule while_true_Raise)
  then show ?thesis by blast
qed

lemma standard_last:
  assumes std: "standard ok remote body"
    and res: "while_true body self = Some (res, m)"
  shows "api_requests self < api_requests m
    \<and> \<not> retried ok (remote (api_requests m - 1))
    \<and> (case res of
          Inr x \<Rightarrow> status_code (remote (api_requests m - 1)) = ok
        | Inl (MonicaFetchError msg) \<Rightarrow>
            status_code (remote (api_requests m - 1)) \<noteq> ok
            \<and> \<not> sublist slow_down_text (error_message (remote (api_requests m - 1)))
        | Inl e \<Rightarrow>
            rate_limited ok (remote (api_requests m - 1))
            \<and> retry_seconds (remote (api_requests m - 1)) = None)"
proof -
  have "\<exists>t. api_requests self \<le> api_requests t \<and> ends_with body t (res, m)"
  proof (rule while_true_inv [where I = "\<lambda>t. api_requests self \<le> api_requests t", OF res])
    show "api_requests self \<le> api_requests self" by simp
  next
    fix u u' assume le: "api_requests self \<le> api_requests u" and c: "body u = Continue u'"
    from std show "api_requests self \<le> api_requests u'"
      by (cases rule: standard_cases [where self = u]) (use le c in \<open>auto simp: wait_def\<close>)
  qed
  then obtain t where le: "api_requests self \<le> api_requests t"
    and e: "ends_with body t (res, m)" by blast
  from std show ?thesis
  proof (cases rule: standard_cases [where self = t])
    case (accepted x m')
    with e le show ?thesis
      by (cases res) (auto simp: ends_with_def retried_def rate_limited_def)
  next
    case (rejected msg m')
    with e le show ?thesis
      by (cases res) (auto simp: ends_with_def retried_def rate_limited_def)
  next
    case (retry sec)
    with e show ?thesis by (cases res) (auto simp: ends_with_def)
  next
    case (broken e' m')
    from broken(1-6) e le show ?thesis
      by (cases res; cases e') (auto simp: ends_with_def retried_def)
  qed
qed




subsection \<open>The loop bodies that are standard\<close>



lemma standard_update_contact:
  "standard 200 remote (update_contact_body remote monica_id data name)"
  unfolding update_contact_body_def standard_unfold
  by (auto split: retry_after.splits)

lemma standard_delete_contact:
  "standard 200 remote (delete_contact_body remote monica_id name)"
  unfolding delete_contact_body_def standard_unfold
  by (auto split: retry_after.splits)

lemma standard_create_contact:
  "standard 201 remote (create_contact_body remote data reference_id)"
  unfolding create_contact_body_def standard_unfold
  by (auto split: retry_after.splits)


lemma standard_add_note:
  "standard 201 remote (add_note_body remote data name)"
  unfolding add_note_body_def standard_unfold
  by (auto split: retry_after.splits)

lemma standard_update_note:
  "standard 200 remote (update_note_body remote note_id data name)"
  unfolding update_note_body_def standard_unfold
  by (auto split: retry_after.splits)

lemma standard_delete_note:
  "standard 200 remote (delete_note_body remote note_id monica_id name)"
  unfolding delete_note_body_def standard_unfold
  by (auto split: retry_after.splits)

lemma standard_remove_tags:
  "standard 200 remote (remove_tags_body remote data monica_id name)"
  unfolding remove_tags_body_def standard_unfold
  by (auto split: retry_after.splits)

lemma standard_add_tags:
  "standard 200 remote (add_tags_body remote data monica_id name)"
  unfolding add_tags_body_def standard_unfold
  by (auto split: retry_after.splits)

lemma standard_delete_address:
  "standard 200 remote (delete_address_body remote address_id monica_id name)"
  unfolding delete_address_body_def standard_unfold
  by (auto split: retry_after.splits)

lemma standard_create_address:
  "standard 201 remote (create_address_body remote data name)"
  unfolding create_address_body_def standard_unfold
  by (auto split: retry_after.splits)


lemma standard_create_contact_field:
  "standard 201 remote (create_contact_field_body remote monica_id data name)"
  unfolding create_contact_field_body_def standard_unfold
  by (auto split: retry_after.splits)

lemma standard_delete_contact_field:
  "standard 200 remote (delete_contact_field_body remote field_id monica_id name)"
  unfolding delete_contact_field_body_def standard_unfold
  by (auto split: retry_after.splits)

subsection \<open>Accepted and rejected requests\<close>

lemma retried_until_0: "retried_until ok remote a 0"
  by (simp add: retried_until_def)

lemma retried_until_Suc:
  "retried_until ok remote a (Suc n) \<longleftrightarrow>
     retried ok (remote a) \<and> retried_until ok remote (Suc a) n"
proof
  assume h: "retried_until ok remote a (Suc n)"
  then have "retried ok (remote (a + 0))" unfolding retried_until_def by blast
  moreover have "retried ok (remote (Suc a + k))" if "k < n" for k
  proof -
    from that have "Suc k < Suc n" by simp
    with h have "retried ok (remote (a + Suc k))" unfolding retried_until_def by blast
    then show ?thesis by simp
  qed
  ultimately show "retried ok (remote a) \<and> retried_until ok remote (Suc a) n"
    by (simp add: retried_until_def)
next
  assume h: "retried ok (remote a) \<and> retried_until ok remote (Suc a) n"
  show "retried_until ok remote a (Suc n)"
    unfolding retried_until_def
  proof (intro allI impI)
    fix k assume "k < Suc n"
    show "retried ok (remote (a + k))"
    proof (cases k)
      case 0
      with h show ?thesis by simp
    next
      case (Suc j)
      with \<open>k < Suc n\<close> have "j < n" by simp
      with h have "retried ok (remote (Suc a + j))" unfolding retried_until_def by blast
      with Suc show ?thesis by simp
    qed
  qed
qed

lemma retried_until_snoc:
  "retried_until ok remote a n \<Longrightarrow> retried ok (remote (a + n)) \<Longrightarrow>
     retried_until ok remote a (Suc n)"
  unfolding retried_until_def by (auto simp: less_Suc_eq)

lemma standard_skip:
  assumes std: "standard ok remote body"
  shows "retried_until ok remote (api_requests self) n \<Longrightarrow>
     \<exists>self'. api_requests self' = api_requests self + n
        \<and> while_true body self = while_true body self'"
proof (induction n arbitrary: self)
  case 0
  then show ?case by auto
next
  case (Suc n)
  then have r: "retried ok (remote (api_requests self))"
    and rest: "retried_until ok remote (Suc (api_requests self)) n"
    by (simp_all add: retried_until_Suc)
  from std obtain sec where c: "body self = Continue (wait sec self)"
  proof (cases rule: standard_cases [where self = self])
    case (retry sec)
    then show ?thesis using that by blast
  qed (use r in \<open>auto simp: retried_def rate_limited_def\<close>)
  from rest have "retried_until ok remote (api_requests (wait sec self)) n"
    by (simp add: wait_def)
  from Suc.IH [OF this] obtain self' where
    "api_requests self' = api_requests (wait sec self) + n"
    "while_true body (wait sec self) = while_true body self'" by blast
  with c show ?case
    by (auto simp: wait_def while_true_Continue)
qed

lemma standard_prefix:
  assumes std: "standard ok remote body"
    and res: "while_true body self = Some (res, m)"
  shows "retried_until ok remote (api_requests self) (api_requests m - 1 - api_requests self)"
proof -
  let ?a = "api_requests self"
  let ?I = "\<lambda>t. ?a \<le> api_requests t \<and> retried_until ok remote ?a (api_requests t - ?a)"
  have "\<exists>t. ?I t \<and> ends_with body t (res, m)"
  proof (rule while_true_inv [where I = ?I, OF res])
    show "?I self" by (simp add: retried_until_0)
  next
    fix u u' assume I: "?I u" and c: "body u = Continue u'"
    from std show "?I u'"
    proof (cases rule: standard_cases [where self = u])
      case (retry sec)
      with c have u': "u' = wait sec u" by simp
      from I have "retried_until ok remote ?a (Suc (api_requests u - ?a))"
        using retry(1) by (intro retried_until_snoc) auto
      with I u' show ?thesis by (simp add: wait_def Suc_diff_le)
    qed (use c in auto)
  qed
  then obtain t where I: "?I t" and e: "ends_with body t (res, m)" by blast
  from std have "api_requests m = Suc (api_requests t)"
    by (cases rule: standard_cases [where self = t]; cases res)
      (use e in \<open>auto simp: ends_with_def\<close>)
  with I show ?thesis by simp
qed

lemma standard_returns_normally_iff:
  assumes std: "standard ok remote body"
  shows "(\<exists>x m. while_true body self = Some (Inr x, m)) \<longleftrightarrow>
         accepted ok remote (api_requests self)"
proof
  assume "\<exists>x m. while_true body self = Some (Inr x, m)"
  then obtain x m where res: "while_true body self = Some (Inr x, m)" by blast
  from standard_last [OF std res] standard_prefix [OF std res]
  have "api_requests self < api_requests m"
    "status_code (remote (api_requests m - 1)) = ok"
    "retried_until ok remote (api_requests self) (api_requests m - 1 - api_requests self)"
    by simp_all
  moreover from this(1)
  have "api_requests self + (api_requests m - 1 - api_requests self) = api_requests m - 1"
    by simp
  ultimately show "accepted ok remote (api_requests self)"
    unfolding accepted_def by metis
next
  assume "accepted ok remote (api_requests self)"
  then obtain n where n: "retried_until ok remote (api_requests self) n"
    "status_code (remote (api_requests self + n)) = ok"
    unfolding accepted_def by blast
  from standard_skip [OF std n(1)] obtain self' where
    s': "api_requests self' = api_requests self + n"
    "while_true body self = while_true body self'" by blast
  from n(2) s'(1) have "status_code (remote (api_requests self')) = ok" by simp
  from standard_accepted [OF std this] s'(2)
  show "\<exists>x m. while_true body self = Some (Inr x, m)" by simp
qed

lemma standard_raises_fetch_error_iff:
  assumes std: "standard ok remote body"
  shows "(\<exists>msg m. while_true body self = Some (Inl (MonicaFetchError msg), m)) \<longleftrightarrow>
         rejected ok remote (api_requests self)"
proof
  assume "\<exists>msg m. while_true body self = Some (Inl (MonicaFetchError msg), m)"
  then obtain msg m where res: "while_true body self = Some (Inl (MonicaFetchError msg), m)"
    by blast
  from standard_last [OF std res] standard_prefix [OF std res]
  have "api_requests self < api_requests m"
    "status_code (remote (api_requests m - 1)) \<noteq> ok"
    "\<not> sublist slow_down_text (error_message (remote (api_requests m - 1)))"
    "retried_until ok remote (api_requests self) (api_requests m - 1 - api_requests self)"
    by simp_all
  moreover from this(1)
  have "api_requests self + (api_requests m - 1 - api_requests self) = api_requests m - 1"
    by simp
  ultimately show "rejected ok remote (api_requests self)"
    unfolding rejected_def by metis
next
  assume "rejected ok remote (api_requests self)"
  then obtain n where n: "retried_until ok remote (api_requests self) n"
    "status_code (remote (api_requests self + n)) \<noteq> ok"
    "\<not> sublist slow_down_text (error_message (remote (api_requests self + n)))"
    unfolding rejected_def by blast
  from standard_skip [OF std n(1)] obtain self' where
    s': "api_requests self' = api_requests self + n"
    "while_true body self = while_true body self'" by blast
  from n(2,3) s'(1) have "status_code (remote (api_requests self')) \<noteq> ok"
    "\<not> sublist slow_down_text (error_message (remote (api_requests self')))" by simp_all
  from standard_rejected [OF std this] s'(2)
  show "\<exists>msg m. while_true body self = Some (Inl (MonicaFetchError msg), m)" by simp
qed

subsection \<open>Loops that wait and go round again\<close>

lemma waits_0: "waits ok remote a 0 = []"
  by (simp add: waits_def)

lemma waits_snoc:
  "waits ok remote a (Suc n) =
     waits ok remote a n @
       (if rate_limited ok (remote (a + n))
        then (case retry_seconds (remote (a + n)) of None \<Rightarrow> [] | Some sec \<Rightarrow> [sec])
        else [])"
  by (simp add: waits_def)

lemma waits_retried:
  "rate_limited ok (remote (a + n)) \<Longrightarrow> retry_seconds (remote (a + n)) = Some sec \<Longrightarrow>
     waits ok remote a (Suc n) = waits ok remote a n @ [sec]"
  by (simp add: waits_snoc)

lemma waited_0: "waited ok remote 0 self = self"
  by (simp add: waited_def waits_0)

lemma waited_snoc:
  "rate_limited ok (remote (api_requests self + n)) \<Longrightarrow>
   retry_seconds (remote (api_requests self + n)) = Some sec \<Longrightarrow>
     waited ok remote (Suc n) self = wait sec (waited ok remote n self)"
  by (simp add: waited_def wait_def waits_retried)

lemma retriedD:
  "retried ok r \<Longrightarrow> \<exists>sec. rate_limited ok r \<and> retry_seconds r = Some sec"
  unfolding retried_def by auto

lemma retried_untilD: "retried_until ok remote a n \<Longrightarrow> k < n \<Longrightarrow> retried ok (remote (a + k))"
  unfolding retried_until_def by blast

lemma retried_until_less:
  "retried_until ok remote a (Suc n) \<Longrightarrow> retried_until ok remote a n"
  unfolding retried_until_def by simp

lemma loop_skips_retried:
  assumes step: "\<And>s sec. rate_limited ok (remote (api_requests s)) \<Longrightarrow>
      retry_seconds (remote (api_requests s)) = Some sec \<Longrightarrow>
      body (put s) = Continue (put (wait sec s))"
  shows "retried_until ok remote (api_requests self) n \<Longrightarrow>
     while_true body (put self) = while_true body (put (waited ok remote n self))"
proof (induction n)
  case 0
  then show ?case by (simp add: waited_0)
next
  case (Suc n)
  let ?t = "waited ok remote n self"
  have at: "api_requests ?t = api_requests self + n" by (simp add: waited_def)
  from Suc.prems have "retried ok (remote (api_requests self + n))"
    by (rule retried_untilD) simp
  from retriedD [OF this] obtain sec where
    rl: "rate_limited ok (remote (api_requests self + n))"
    and rs: "retry_seconds (remote (api_requests self + n)) = Some sec" by blast
  from rl rs have "body (put ?t) = Continue (put (wait sec ?t))"
    unfolding at [symmetric] by (rule step)
  then have "while_true body (put ?t) = while_true body (put (wait sec ?t))"
    by (rule while_true_Continue)
  moreover from Suc.prems have "retried_until ok remote (api_requests self) n"
    by (rule retried_until_less)
  then have "while_true body (put self) = while_true body (put ?t)" by (rule Suc.IH)
  moreover from rl rs have "waited ok remote (Suc n) self = wait sec ?t" by (rule waited_snoc)
  ultimately show ?case by simp
qed


lemma first_stop:
  fixes a :: nat
  assumes "\<exists>k\<ge>a. \<not> C k"
  shows "\<exists>n. (\<forall>k<n. C (a + k)) \<and> \<not> C (a + n)"
proof -
  from assms obtain k where k: "a \<le> k" "\<not> C k" by blast
  define P where "P j \<longleftrightarrow> \<not> C (a + j)" for j
  from k have "P (k - a)" by (simp add: P_def)
  then have "P (LEAST j. P j)" by (rule LeastI)
  moreover have "\<not> P j" if "j < (LEAST j. P j)" for j
    using that by (rule not_less_Least)
  ultimately show ?thesis unfolding P_def by blast
qed








lemma answers_first:
  assumes "answers ok remote a"
  shows "\<exists>n. retried_until ok remote a n \<and> \<not> retried ok (remote (a + n))"
proof -
  from assms have "\<exists>k\<ge>a. \<not> retried ok (remote k)" by (simp add: answers_def)
  from first_stop [where C = "\<lambda>k. retried ok (remote k)", OF this]
  show ?thesis by (simp add: retried_until_def)
qed




lemma slowing_retried: "ok \<noteq> 429 \<Longrightarrow> retried ok (slowing d k)"
  by (simp add: retried_def rate_limited_def retry_seconds_def slowing_def sleep_max_def)

section \<open>Mutations and the remote's verdict\<close>

lemma create_contact_returns_iff:
  "(\<exists>x m. create_contact remote_contact data reference_id self = Some (Inr x, m)) \<longleftrightarrow>
     accepted 201 remote_contact (api_requests self)"
  unfolding create_contact_def
  by (rule standard_returns_normally_iff [OF standard_create_contact])

lemma create_contact_raises_iff:
  "(\<exists>msg m. create_contact remote_contact data reference_id self = Some (Inl (MonicaFetchError msg), m)) \<longleftrightarrow>
     rejected 201 remote_contact (api_requests self)"
  unfolding create_contact_def
  by (rule standard_raises_fetch_error_iff [OF standard_create_contact])

lemma update_contact_returns_iff:
  "(\<exists>x m. update_contact remote_contact monica_id data self = Some (Inr x, m)) \<longleftrightarrow>
     accepted 200 remote_contact (api_requests self)"
  unfolding update_contact_def Let_def
  using standard_returns_normally_iff [OF standard_update_contact,
      of remote_contact monica_id data _
        "self\<lparr>contacts := [c \<leftarrow> contacts self. str_id (contact_id c) \<noteq> str_id monica_id]\<rparr>"]
  by simp

lemma update_contact_raises_iff:
  "(\<exists>msg m. update_contact remote_contact monica_id data self = Some (Inl (MonicaFetchError msg), m)) \<longleftrightarrow>
     rejected 200 remote_contact (api_requests self)"
  unfolding update_contact_def Let_def
  using standard_raises_fetch_error_iff [OF standard_update_contact,
      of remote_contact monica_id data _
        "self\<lparr>contacts := [c \<leftarrow> contacts self. str_id (contact_id c) \<noteq> str_id monica_id]\<rparr>"]
  by simp

lemma delete_contact_returns_iff:
  "(\<exists>x m. delete_contact remote monica_id name self = Some (Inr x, m)) \<longleftrightarrow>
     accepted 200 remote (api_requests self)"
  unfolding delete_contact_def
  by (rule standard_returns_normally_iff [OF standard_delete_contact])

lemma delete_contact_raises_iff:
  "(\<exists>msg m. delete_contact remote monica_id name self = Some (Inl (MonicaFetchError msg), m)) \<longleftrightarrow>
     rejected 200 remote (api_requests self)"
  unfolding delete_contact_def
  by (rule standard_raises_fetch_error_iff [OF standard_delete_contact])

lemma add_note_returns_iff:
  "(\<exists>x m. add_note remote_note note_data name self = Some (Inr x, m)) \<longleftrightarrow>
     accepted 201 remote_note (api_requests self)"
  unfolding add_note_def
  by (rule standard_returns_normally_iff [OF standard_add_note])

lemma add_note_raises_iff:
  "(\<exists>msg m. add_note remote_note note_data name self = Some (Inl (MonicaFetchError msg), m)) \<longleftrightarrow>
     rejected 201 remote_note (api_requests self)"
  unfolding add_note_def
  by (rule standard_raises_fetch_error_iff [OF standard_add_note])

lemma update_note_returns_iff:
  "(\<exists>x m. update_note remote_note note_id note_data name self = Some (Inr x, m)) \<longleftrightarrow>
     accepted 200 remote_note (api_requests self)"
  unfolding update_note_def
  by (rule standard_returns_normally_iff [OF standard_update_note])

lemma update_note_raises_iff:
  "(\<exists>msg m. update_note remote_note note_id note_data name self = Some (Inl (MonicaFetchError msg), m)) \<longleftrightarrow>
     rejected 200 remote_note (api_requests self)"
  unfolding update_note_def
  by (rule standard_raises_fetch_error_iff [OF standard_update_note])

lemma delete_note_returns_iff:
  "(\<exists>x m. delete_note remote note_id monica_id name self = Some (Inr x, m)) \<longleftrightarrow>
     accepted 200 remote (api_requests self)"
  unfolding delete_note_def
  by (rule standard_returns_normally_iff [OF standard_delete_note])

lemma delete_note_raises_iff:
  "(\<exists>msg m. delete_note remote note_id monica_id name self = Some (Inl (MonicaFetchError msg), m)) \<longleftrightarrow>
     rejected 200 remote (api_requests self)"
  unfolding delete_note_def
  by (rule standard_raises_fetch_error_iff [OF standard_delete_note])

lemma remove_tags_returns_iff:
  "(\<exists>x m. remove_tags remote tags_data monica_id name self = Some (Inr x, m)) \<longleftrightarrow>
     accepted 200 remote (api_requests self)"
  unfolding remove_tags_def
  by (rule standard_returns_normally_iff [OF standard_remove_tags])

lemma remove_tags_raises_iff:
  "(\<exists>msg m. remove_tags remote tags_data monica_id name self = Some (Inl (MonicaFetchError msg), m)) \<longleftrightarrow>
     rejected 200 remote (api_requests self)"
  unfolding remove_tags_def
  by (rule standard_raises_fetch_error_iff [OF standard_remove_tags])

lemma add_tags_returns_iff:
  "(\<exists>x m. add_tags remote tags_data monica_id name self = Some (Inr x, m)) \<longleftrightarrow>
     accepted 200 remote (api_requests self)"
  unfolding add_tags_def
  by (rule standard_returns_normally_iff [OF standard_add_tags])

lemma add_tags_raises_iff:
  "(\<exists>msg m. add_tags remote tags_data monica_id name self = Some (Inl (MonicaFetchError msg), m)) \<longleftrightarrow>
     rejected 200 remote (api_requests self)"
  unfolding add_tags_def
  by (rule standard_raises_fetch_error_iff [OF standard_add_tags])

lemma delete_address_returns_iff:
  "(\<exists>x m. delete_address remote address_id monica_id name self = Some (Inr x, m)) \<longleftrightarrow>
     accepted 200 remote (api_requests self)"
  unfolding delete_address_def
  by (rule standard_returns_normally_iff [OF standard_delete_address])

lemma delete_address_raises_iff:
  "(\<exists>msg m. delete_address remote address_id monica_id name self = Some (Inl (MonicaFetchError msg), m)) \<longleftrightarrow>
     rejected 200 remote (api_requests self)"
  unfolding delete_address_def
  by (rule standard_raises_fetch_error_iff [OF standard_delete_address])

lemma create_address_returns_iff:
  "(\<exists>x m. create_address remote_address address_data name self = Some (Inr x, m)) \<longleftrightarrow>
     accepted 201 remote_address (api_requests self)"
  unfolding create_address_def
  by (rule standard_returns_normally_iff [OF standard_create_address])

lemma create_address_raises_iff:
  "(\<exists>msg m. create_address remote_address address_data name self = Some (Inl (MonicaFetchError msg), m)) \<longleftrightarrow>
     rejected 201 remote_address (api_requests self)"
  unfolding create_address_def
  by (rule standard_raises_fetch_error_iff [OF standard_create_address])

lemma create_contact_field_returns_iff:
  "(\<exists>x m. create_contact_field remote_field monica_id field_data name self = Some (Inr x, m)) \<longleftrightarrow>
     accepted 201 remote_field (api_requests self)"
  unfolding create_contact_field_def
  by (rule standard_returns_normally_iff [OF standard_create_contact_field])

lemma create_contact_field_raises_iff:
  "(\<exists>msg m. create_contact_field remote_field monica_id field_data name self = Some (Inl (MonicaFetchError msg), m)) \<longleftrightarrow>
     rejected 201 remote_field (api_requests self)"
  unfolding create_contact_field_def
  by (rule standard_raises_fetch_error_iff [OF standard_create_contact_field])

lemma delete_contact_field_returns_iff:
  "(\<exists>x m. delete_contact_field remote field_id monica_id name self = Some (Inr x, m)) \<longleftrightarrow>
     accepted 200 remote (api_requests self)"
  unfolding delete_contact_field_def
  by (rule standard_returns_normally_iff [OF standard_delete_contact_field])

lemma delete_contact_field_raises_iff:
  "(\<exists>msg m. delete_contact_field remote field_id monica_id name self = Some (Inl (MonicaFetchError msg), m)) \<longleftrightarrow>
     rejected 200 remote (api_requests self)"
  unfolding delete_contact_field_def
  by (rule standard_raises_fetch_error_iff [OF standard_delete_contact_field])

lemma accepted_now: "status_code (remote a) = ok \<Longrightarrow> accepted ok remote a"
  unfolding accepted_def using retried_until_0 [of ok remote a] by (intro exI [of _ 0]) simp

lemma rejected_now:
  "status_code (remote a) \<noteq> ok \<Longrightarrow> \<not> sublist slow_down_text (error_message (remote a))
     \<Longrightarrow> rejected ok remote a"
  unfolding rejected_def using retried_until_0 [of ok remote a] by (intro exI [of _ 0]) simp

text \<open>
  C3. Each mutation of a contact (create, update, delete, and the note, address, tag
  and contact-field mutations) returns normally if and only if the remote accepts the
  request, that is, answers with the success status after the rate-limit responses
  that were retried; and it raises MonicaFetchError if and only if the remote rejects
  the request, that is, the first response that is not retried is neither a success
  nor a rate-limit response. A rejection thus never ends in a silent return.
\<close>

theorem mutation_returns_iff_accepted:
  "((\<exists>x m. create_contact remote_contact data reference_id self = Some (Inr x, m)) \<longleftrightarrow>
        accepted 201 remote_contact (api_requests self))
    \<and> ((\<exists>msg m. create_contact remote_contact data reference_id self = Some (Inl (MonicaFetchError msg), m)) \<longleftrightarrow>
        rejected 201 remote_contact (api_requests self))
    \<and> ((\<exists>x m. update_contact remote_contact monica_id data self = Some (Inr x, m)) \<longleftrightarrow>
        accepted 200 remote_contact (api_requests self))
    \<and> ((\<exists>msg m. update_contact remote_contact monica_id data self = Some (Inl (MonicaFetchError msg), m)) \<longleftrightarrow>
        rejected 200 remote_contact (api_requests self))
    \<and> ((\<exists>x m. delete_contact remote monica_id name self = Some (Inr x, m)) \<longleftrightarrow>
        accepted 200 remote (api_requests self))
    \<and> ((\<exists>msg m. delete_contact remote monica_id name self = Some (Inl (MonicaFetchError msg), m)) \<longleftrightarrow>
        rejected 200 remote (api_requests self))
    \<and> ((\<exists>x m. add_note remote_note note_data name self = Some (Inr x, m)) \<longleftrightarrow>
        accepted 201 remote_note (api_requests self))
    \<and> ((\<exists>msg m. add_note remote_note note_data name self = Some (Inl (MonicaFetchError msg), m)) \<longleftrightarrow>
        rejected 201 remote_note (api_requests self))
    \<and> ((\<exists>x m. update_note remote_note note_id note_data name self = Some (Inr x, m)) \<longleftrightarrow>
        accepted 200 remote_note (api_requests self))
    \<and> ((\<exists>msg m. update_note remote_note note_id note_data name self = Some (Inl (MonicaFetchError msg), m)) \<longleftrightarrow>
        rejected 200 remote_note (api_requests self))
    \<and> ((\<exists>x m. delete_note remote note_id monica_id name self = Some (Inr x, m)) \<longleftrightarrow>
        accepted 200 remote (api_requests self))
    \<and> ((\<exists>msg m. delete_note remote note_id monica_id name self = Some (Inl (MonicaFetchError msg), m)) \<longleftrightarrow>
        rejected 200 remote (api_requests self))
    \<and> ((\<exists>x m. remove_tags remote tags_data monica_id name self = Some (Inr x, m)) \<longleftrightarrow>
        accepted 200 remote (api_requests self))
    \<and> ((\<exists>msg m. remove_tags remote tags_data monica_id name self = Some (Inl (MonicaFetchError msg), m)) \<longleftrightarrow>
        rejected 200 remote (api_requests self))
    \<and> ((\<exists>x m. add_tags remote tags_data monica_id name self = Some (Inr x, m)) \<longleftrightarrow>
        accepted 200 remote (api_requests self))
    \<and> ((\<exists>msg m. add_tags remote tags_data monica_id name self = Some (Inl (MonicaFetchError msg), m)) \<longleftrightarrow>
        rejected 200 remote (api_requests self))
    \<and> ((\<exists>x m. delete_address remote address_id monica_id name self = Some (Inr x, m)) \<longleftrightarrow>
        accepted 200 remote (api_requests self))
    \<and> ((\<exists>msg m. delete_address remote address_id monica_id name self = Some (Inl (MonicaFetchError msg), m)) \<longleftrightarrow>
        rejected 200 remote (api_requests self))
    \<and> ((\<exists>x m. create_address remote_address address_data name self = Some (Inr x, m)) \<longleftrightarrow>
        accepted 201 remote_address (api_requests self))
    \<and> ((\<exists>msg m. create_address remote_address address_data name self = Some (Inl (MonicaFetchError msg), m)) \<longleftrightarrow>
        rejected 201 remote_address (api_requests self))
    \<and> ((\<exists>x m. create_contact_field remote_field monica_id field_data name self = Some (Inr x, m)) \<longleftrightarrow>
        accepted 201 remote_field (api_requests self))
    \<and> ((\<exists>msg m. create_contact_field remote_field monica_id field_data name self = Some (Inl (MonicaFetchError msg), m)) \<longleftrightarrow>
        rejected 201 remote_field (api_requests self))
    \<and> ((\<exists>x m. delete_contact_field remote field_id monica_id name self = Some (Inr x, m)) \<longleftrightarrow>
        accepted 200 remote (api_requests self))
    \<and> ((\<exists>msg m. delete_contact_field remote field_id monica_id name self = Some (Inl (MonicaFetchError msg), m)) \<longleftrightarrow>
        rejected 200 remote (api_requests self))"
  by (intro conjI)
    (rule create_contact_returns_iff,
     rule create_contact_raises_iff,
     rule update_contact_returns_iff,
     rule update_contact_raises_iff,
     rule delete_contact_returns_iff,
     rule delete_contact_raises_iff,
     rule add_note_returns_iff,
     rule add_note_raises_iff,
     rule update_note_returns_iff,
     rule update_note_raises_iff,
     rule delete_note_returns_iff,
     rule delete_note_raises_iff,
     rule remove_tags_returns_iff,
     rule remove_tags_raises_iff,
     rule add_tags_returns_iff,
     rule add_tags_raises_iff,
     rule delete_address_returns_iff,
     rule delete_address_raises_iff,
     rule create_address_returns_iff,
     rule create_address_raises_iff,
     rule create_contact_field_returns_iff,
     rule create_contact_field_raises_iff,
     rule delete_contact_field_returns_iff,
     rule delete_contact_field_raises_iff)

theorem mutation_returns_iff_accepted_witness:
  "(\<exists>x m. create_contact (accepting 201 ada) form0 ''people/c1''
             (Monica_init [] True [] []) = Some (Inr x, m))
   \<and> (\<exists>msg m. update_contact (accepting 201 ada) (IdStr ''1'') form0
             (Monica_init [] True [] []) = Some (Inl (MonicaFetchError msg), m))
   \<and> (\<exists>x m. delete_contact (accepting 200 ada) (IdStr ''1'') ''Ada Lovelace''
             (Monica_init [] True [] []) = Some (Inr x, m))
   \<and> (\<exists>msg m. add_note (refusing \<lparr>note_ident = IdInt 9\<rparr>) \<lparr>contact_id_of = IdInt 1\<rparr>
             ''Ada Lovelace'' (Monica_init [] True [] [])
           = Some (Inl (MonicaFetchError msg), m))"
proof -
  have a1: "accepted 201 (accepting 201 ada) (api_requests (Monica_init [] True [] []))"
    by (rule accepted_now) (simp add: accepting_def)
  have a2: "rejected 200 (accepting 201 ada) (api_requests (Monica_init [] True [] []))"
    by (rule rejected_now) (simp_all add: accepting_def slow_down_text_def)
  have a3: "accepted 200 (accepting 200 ada) (api_requests (Monica_init [] True [] []))"
    by (rule accepted_now) (simp add: accepting_def)
  have a4: "rejected 201 (refusing \<lparr>note_ident = IdInt 9\<rparr>)
              (api_requests (Monica_init [] True [] []))"
    by (rule rejected_now) (simp_all add: refusing_def slow_down_text_def sublist_code)
  note t1 = mutation_returns_iff_accepted
        [where remote_contact = "accepting 201 ada" and data = form0
           and reference_id = "''people/c1''" and self = "Monica_init [] True [] []"
           and monica_id = "IdStr ''1''"]
  note t2 = mutation_returns_iff_accepted
        [where remote = "accepting 200 ada" and name = "''Ada Lovelace''"
           and self = "Monica_init [] True [] []" and monica_id = "IdStr ''1''"
           and remote_note = "refusing \<lparr>note_ident = IdInt 9\<rparr>"
           and note_data = "\<lparr>contact_id_of = IdInt 1\<rparr>"]
  have c1: "\<exists>x m. create_contact (accepting 201 ada) form0 ''people/c1''
             (Monica_init [] True [] []) = Some (Inr x, m)"
    by (rule iffD2 [OF t1 [THEN conjunct1] a1])
  have c2: "\<exists>msg m. update_contact (accepting 201 ada) (IdStr ''1'') form0
             (Monica_init [] True [] []) = Some (Inl (MonicaFetchError msg), m)"
    by (rule iffD2 [OF t1 [THEN conjunct2, THEN conjunct2, THEN conjunct2, THEN conjunct1] a2])
  have c3: "\<exists>x m. delete_contact (accepting 200 ada) (IdStr ''1'') ''Ada Lovelace''
             (Monica_init [] True [] []) = Some (Inr x, m)"
    by (rule iffD2 [OF t2 [THEN conjunct2, THEN conjunct2, THEN conjunct2, THEN conjunct2,
            THEN conjunct1] a3])
  have c4: "\<exists>msg m. add_note (refusing \<lparr>note_ident = IdInt 9\<rparr>) \<lparr>contact_id_of = IdInt 1\<rparr>
             ''Ada Lovelace'' (Monica_init [] True [] [])
           = Some (Inl (MonicaFetchError msg), m)"
    by (rule iffD2 [OF t2 [THEN conjunct2, THEN conjunct2, THEN conjunct2, THEN conjunct2,
            THEN conjunct2, THEN conjunct2, THEN conjunct2, THEN conjunct1] a4])
  from c1 c2 c3 c4 show ?thesis by (intro conjI)
qed

section \<open>The contact cache and the mapping store\<close>

lemma while_true_result:
  assumes "while_true body s = Some (res, m)" and "I s"
    and "\<And>u u'. I u \<Longrightarrow> body u = Continue u' \<Longrightarrow> I u'"
  obtains t where "I t"
    and "case res of Inr x \<Rightarrow> body t = Return x m | Inl e \<Rightarrow> body t = Raise e m"
proof -
  from while_true_inv [where I = I, OF assms(1,2)] assms(3)
  obtain t where "I t" "ends_with body t (res, m)" by blast
  then show ?thesis using that by (cases res) (auto simp: ends_with_def)
qed

lemma keepsD:
  "keeps f body \<Longrightarrow>
     (case body t of Continue u \<Rightarrow> f u = f t | Return x m \<Rightarrow> f m = f t
      | Raise e m \<Rightarrow> f m = f t)"
  unfolding keeps_def by (rule spec)

lemma keeps_while_true:
  assumes k: "keeps f body" and res: "while_true body s = Some (res, m)"
  shows "f m = f s"
proof -
  have step: "f u' = f s" if "f u = f s" "body u = Continue u'" for u u'
    using keepsD [OF k, of u] that by simp
  from res obtain t where t: "f t = f s"
    and e: "case res of Inr x \<Rightarrow> body t = Return x m | Inl e \<Rightarrow> body t = Raise e m"
  proof (rule while_true_result [where I = "\<lambda>t. f t = f s"])
    show "f s = f s" ..
  qed (rule step)
  from keepsD [OF k, of t] e t show ?thesis by (cases res) simp_all
qed

lemmas body_unfold =
  request_def Let_def failed_response_cases mark_updated_def log_info_def log_error_def
  log_warning_def

lemma update_contact_body_Continue:
  "update_contact_body remote monica_id data name t = Continue u \<Longrightarrow>
     contacts u = contacts t \<and> database u = database t
     \<and> api_requests u = Suc (api_requests t)"
  unfolding update_contact_body_def body_unfold
  by (auto split: if_splits retry_after.splits)

lemma update_contact_body_Raise:
  "update_contact_body remote monica_id data name t = Raise e m \<Longrightarrow>
     contacts m = contacts t \<and> database m = database t"
  unfolding update_contact_body_def body_unfold
  by (auto split: if_splits retry_after.splits)

lemma update_contact_body_Return:
  "update_contact_body remote monica_id data name t = Return x m \<Longrightarrow>
     api_requests m = Suc (api_requests t)
     \<and> database m =
         Database_update monica_id (updated_at (json_data (remote (api_requests t))))
           (Some (complete_name (json_data (remote (api_requests t))))) (database t)"
  unfolding update_contact_body_def body_unfold
  by (auto split: if_splits retry_after.splits)

lemma update_contact_raise_cache:
  assumes "update_contact remote monica_id data self = Some (Inl e, m)"
  shows "contacts m = [c \<leftarrow> contacts self. str_id (contact_id c) \<noteq> str_id monica_id]"
proof -
  let ?s = "self\<lparr>contacts := [c \<leftarrow> contacts self. str_id (contact_id c) \<noteq> str_id monica_id]\<rparr>"
  let ?body = "update_contact_body remote monica_id data
                 (first_name data @ '' '' @ str_opt (last_name data))"
  from assms have res: "while_true ?body ?s = Some (Inl e, m)"
    by (simp add: update_contact_def Let_def)
  from res obtain t where t: "contacts t = contacts ?s"
    and e: "?body t = Raise e m"
    by (rule while_true_result [where I = "\<lambda>t. contacts t = contacts ?s"])
      (auto dest: update_contact_body_Continue)
  from update_contact_body_Raise [OF e] t show ?thesis by simp
qed

lemma str_id_1: "str_id (IdInt 1) = ''1''"
  by code_simp

lemma str_id_2: "str_id (IdInt 2) = ''2''"
  by code_simp

lemma keeps_database_add_note:
  "keeps database (add_note_body remote_note note_data name)"
  unfolding keeps_def add_note_body_def body_unfold
  by (simp split: retry_after.splits)

lemma add_note_body_marks:
  "add_note_body remote_note note_data name t = Return x m \<Longrightarrow>
     map_of (updated_contacts m) (contact_id_of note_data) = Some True"
  unfolding add_note_body_def body_unfold dict_set_def
  by (auto simp: update_conv' split: if_splits retry_after.splits)

lemma add_note_database:
  assumes "add_note remote_note note_data name self = Some (res, m)"
  shows "database m = database self
    \<and> (case res of Inr x \<Rightarrow> map_of (updated_contacts m) (contact_id_of note_data) = Some True
        | Inl e \<Rightarrow> True)"
proof -
  from assms have res: "while_true (add_note_body remote_note note_data name) self = Some (res, m)"
    by (simp add: add_note_def)
  from keeps_while_true [OF keeps_database_add_note res]
  have db: "database m = database self" .
  from res obtain t where
    "case res of Inr x \<Rightarrow> add_note_body remote_note note_data name t = Return x m
     | Inl e \<Rightarrow> add_note_body remote_note note_data name t = Raise e m"
    by (rule while_true_result [where I = "\<lambda>t. True"]) simp_all
  then have "case res of Inr x \<Rightarrow> map_of (updated_contacts m) (contact_id_of note_data) = Some True
        | Inl e \<Rightarrow> True"
    by (cases res) (simp_all add: add_note_body_marks)
  with db show ?thesis ..
qed

lemma keeps_database_update_note:
  "keeps database (update_note_body remote_note note_id note_data name)"
  unfolding keeps_def update_note_body_def body_unfold
  by (simp split: retry_after.splits)

lemma update_note_body_marks:
  "update_note_body remote_note note_id note_data name t = Return x m \<Longrightarrow>
     map_of (updated_contacts m) (contact_id_of note_data) = Some True"
  unfolding update_note_body_def body_unfold dict_set_def
  by (auto simp: update_conv' split: if_splits retry_after.splits)

lemma update_note_database:
  assumes "update_note remote_note note_id note_data name self = Some (res, m)"
  shows "database m = database self
    \<and> (case res of Inr x \<Rightarrow> map_of (updated_contacts m) (contact_id_of note_data) = Some True
        | Inl e \<Rightarrow> True)"
proof -
  from assms have res: "while_true (update_note_body remote_note note_id note_data name) self = Some (res, m)"
    by (simp add: update_note_def)
  from keeps_while_true [OF keeps_database_update_note res]
  have db: "database m = database self" .
  from res obtain t where
    "case res of Inr x \<Rightarrow> update_note_body remote_note note_id note_data name t = Return x m
     | Inl e \<Rightarrow> update_note_body remote_note note_id note_data name t = Raise e m"
    by (rule while_true_result [where I = "\<lambda>t. True"]) simp_all
  then have "case res of Inr x \<Rightarrow> map_of (updated_contacts m) (contact_id_of note_data) = Some True
        | Inl e \<Rightarrow> True"
    by (cases res) (simp_all add: update_note_body_marks)
  with db show ?thesis ..
qed

lemma keeps_database_delete_note:
  "keeps database (delete_note_body remote note_id monica_id name)"
  unfolding keeps_def delete_note_body_def body_unfold
  by (simp split: retry_after.splits)

lemma delete_note_body_marks:
  "delete_note_body remote note_id monica_id name t = Return x m \<Longrightarrow>
     map_of (updated_contacts m) (monica_id) = Some True"
  unfolding delete_note_body_def body_unfold dict_set_def
  by (auto simp: update_conv' split: if_splits retry_after.splits)

lemma delete_note_database:
  assumes "delete_note remote note_id monica_id name self = Some (res, m)"
  shows "database m = database self
    \<and> (case res of Inr x \<Rightarrow> map_of (updated_contacts m) (monica_id) = Some True
        | Inl e \<Rightarrow> True)"
proof -
  from assms have res: "while_true (delete_note_body remote note_id monica_id name) self = Some (res, m)"
    by (simp add: delete_note_def)
  from keeps_while_true [OF keeps_database_delete_note res]
  have db: "database m = database self" .
  from res obtain t where
    "case res of Inr x \<Rightarrow> delete_note_body remote note_id monica_id name t = Return x m
     | Inl e \<Rightarrow> delete_note_body remote note_id monica_id name t = Raise e m"
    by (rule while_true_result [where I = "\<lambda>t. True"]) simp_all
  then have "case res of Inr x \<Rightarrow> map_of (updated_contacts m) (monica_id) = Some True
        | Inl e \<Rightarrow> True"
    by (cases res) (simp_all add: delete_note_body_marks)
  with db show ?thesis ..
qed

lemma keeps_database_remove_tags:
  "keeps database (remove_tags_body remote tags_data monica_id name)"
  unfolding keeps_def remove_tags_body_def body_unfold
  by (simp split: retry_after.splits)

lemma remove_tags_body_marks:
  "remove_tags_body remote tags_data monica_id name t = Return x m \<Longrightarrow>
     map_of (updated_contacts m) (monica_id) = Some True"
  unfolding remove_tags_body_def body_unfold dict_set_def
  by (auto simp: update_conv' split: if_splits retry_after.splits)

lemma remove_tags_database:
  assumes "remove_tags remote tags_data monica_id name self = Some (res, m)"
  shows "database m = database self
    \<and> (case res of Inr x \<Rightarrow> map_of (updated_contacts m) (monica_id) = Some True
        | Inl e \<Rightarrow> True)"
proof -
  from assms have res: "while_true (remove_tags_body remote tags_data monica_id name) self = Some (res, m)"
    by (simp add: remove_tags_def)
  from keeps_while_true [OF keeps_database_remove_tags res]
  have db: "database m = database self" .
  from res obtain t where
    "case res of Inr x \<Rightarrow> remove_tags_body remote tags_data monica_id name t = Return x m
     | Inl e \<Rightarrow> remove_tags_body remote tags_data monica_id name t = Raise e m"
    by (rule while_true_result [where I = "\<lambda>t. True"]) simp_all
  then have "case res of Inr x \<Rightarrow> map_of (updated_contacts m) (monica_id) = Some True
        | Inl e \<Rightarrow> True"
    by (cases res) (simp_all add: remove_tags_body_marks)
  with db show ?thesis ..
qed

lemma keeps_database_add_tags:
  "keeps database (add_tags_body remote tags_data monica_id name)"
  unfolding keeps_def add_tags_body_def body_unfold
  by (simp split: retry_after.splits)

lemma add_tags_body_marks:
  "add_tags_body remote tags_data monica_id name t = Return x m \<Longrightarrow>
     map_of (updated_contacts m) (monica_id) = Some True"
  unfolding add_tags_body_def body_unfold dict_set_def
  by (auto simp: update_conv' split: if_splits retry_after.splits)

lemma add_tags_database:
  assumes "add_tags remote tags_data monica_id name self = Some (res, m)"
  shows "database m = database self
    \<and> (case res of Inr x \<Rightarrow> map_of (updated_contacts m) (monica_id) = Some True
        | Inl e \<Rightarrow> True)"
proof -
  from assms have res: "while_true (add_tags_body remote tags_data monica_id name) self = Some (res, m)"
    by (simp add: add_tags_def)
  from keeps_while_true [OF keeps_database_add_tags res]
  have db: "database m = database self" .
  from res obtain t where
    "case res of Inr x \<Rightarrow> add_tags_body remote tags_data monica_id name t = Return x m
     | Inl e \<Rightarrow> add_tags_body remote tags_data monica_id name t = Raise e m"
    by (rule while_true_result [where I = "\<lambda>t. True"]) simp_all
  then have "case res of Inr x \<Rightarrow> map_of (updated_contacts m) (monica_id) = Some True
        | Inl e \<Rightarrow> True"
    by (cases res) (simp_all add: add_tags_body_marks)
  with db show ?thesis ..
qed

lemma keeps_database_delete_address:
  "keeps database (delete_address_body remote address_id monica_id name)"
  unfolding keeps_def delete_address_body_def body_unfold
  by (simp split: retry_after.splits)

lemma delete_address_body_marks:
  "delete_address_body remote address_id monica_id name t = Return x m \<Longrightarrow>
     map_of (updated_contacts m) (monica_id) = Some True"
  unfolding delete_address_body_def body_unfold dict_set_def
  by (auto simp: update_conv' split: if_splits retry_after.splits)

lemma delete_address_database:
  assumes "delete_address remote address_id monica_id name self = Some (res, m)"
  shows "database m = database self
    \<and> (case res of Inr x \<Rightarrow> map_of (updated_contacts m) (monica_id) = Some True
        | Inl e \<Rightarrow> True)"
proof -
  from assms have res: "while_true (delete_address_body remote address_id monica_id name) self = Some (res, m)"
    by (simp add: delete_address_def)
  from keeps_while_true [OF keeps_database_delete_address res]
  have db: "database m = database self" .
  from res obtain t where
    "case res of Inr x \<Rightarrow> delete_address_body remote address_id monica_id name t = Return x m
     | Inl e \<Rightarrow> delete_address_body remote address_id monica_id name t = Raise e m"
    by (rule while_true_result [where I = "\<lambda>t. True"]) simp_all
  then have "case res of Inr x \<Rightarrow> map_of (updated_contacts m) (monica_id) = Some True
        | Inl e \<Rightarrow> True"
    by (cases res) (simp_all add: delete_address_body_marks)
  with db show ?thesis ..
qed

lemma keeps_database_create_address:
  "keeps database (create_address_body remote_address address_data name)"
  unfolding keeps_def create_address_body_def body_unfold
  by (simp split: retry_after.splits)

lemma create_address_body_marks:
  "create_address_body remote_address address_data name t = Return x m \<Longrightarrow>
     map_of (updated_contacts m) (contact_id_of address_data) = Some True"
  unfolding create_address_body_def body_unfold dict_set_def
  by (auto simp: update_conv' split: if_splits retry_after.splits)

lemma create_address_database:
  assumes "create_address remote_address address_data name self = Some (res, m)"
  shows "database m = database self
    \<and> (case res of Inr x \<Rightarrow> map_of (updated_contacts m) (contact_id_of address_data) = Some True
        | Inl e \<Rightarrow> True)"
proof -
  from assms have res: "while_true (create_address_body remote_address address_data name) self = Some (res, m)"
    by (simp add: create_address_def)
  from keeps_while_true [OF keeps_database_create_address res]
  have db: "database m = database self" .
  from res obtain t where
    "case res of Inr x \<Rightarrow> create_address_body remote_address address_data name t = Return x m
     | Inl e \<Rightarrow> create_address_body remote_address address_data name t = Raise e m"
    by (rule while_true_result [where I = "\<lambda>t. True"]) simp_all
  then have "case res of Inr x \<Rightarrow> map_of (updated_contacts m) (contact_id_of address_data) = Some True
        | Inl e \<Rightarrow> True"
    by (cases res) (simp_all add: create_address_body_marks)
  with db show ?thesis ..
qed

lemma keeps_database_create_contact_field:
  "keeps database (create_contact_field_body remote_field monica_id field_data name)"
  unfolding keeps_def create_contact_field_body_def body_unfold
  by (simp split: retry_after.splits)

lemma create_contact_field_body_marks:
  "create_contact_field_body remote_field monica_id field_data name t = Return x m \<Longrightarrow>
     map_of (updated_contacts m) (monica_id) = Some True"
  unfolding create_contact_field_body_def body_unfold dict_set_def
  by (auto simp: update_conv' split: if_splits retry_after.splits)

lemma create_contact_field_database:
  assumes "create_contact_field remote_field monica_id field_data name self = Some (res, m)"
  shows "database m = database self
    \<and> (case res of Inr x \<Rightarrow> map_of (updated_contacts m) (monica_id) = Some True
        | Inl e \<Rightarrow> True)"
proof -
  from assms have res: "while_true (create_contact_field_body remote_field monica_id field_data name) self = Some (res, m)"
    by (simp add: create_contact_field_def)
  from keeps_while_true [OF keeps_database_create_contact_field res]
  have db: "database m = database self" .
  from res obtain t where
    "case res of Inr x \<Rightarrow> create_contact_field_body remote_field monica_id field_data name t = Return x m
     | Inl e \<Rightarrow> create_contact_field_body remote_field monica_id field_data name t = Raise e m"
    by (rule while_true_result [where I = "\<lambda>t. True"]) simp_all
  then have "case res of Inr x \<Rightarrow> map_of (updated_contacts m) (monica_id) = Some True
        | Inl e \<Rightarrow> True"
    by (cases res) (simp_all add: create_contact_field_body_marks)
  with db show ?thesis ..
qed

lemma keeps_database_delete_contact_field:
  "keeps database (delete_contact_field_body remote field_id monica_id name)"
  unfolding keeps_def delete_contact_field_body_def body_unfold
  by (simp split: retry_after.splits)

lemma delete_contact_field_body_marks:
  "delete_contact_field_body remote field_id monica_id name t = Return x m \<Longrightarrow>
     map_of (updated_contacts m) (monica_id) = Some True"
  unfolding delete_contact_field_body_def body_unfold dict_set_def
  by (auto simp: update_conv' split: if_splits retry_after.splits)

lemma delete_contact_field_database:
  assumes "delete_contact_field remote field_id monica_id name self = Some (res, m)"
  shows "database m = database self
    \<and> (case res of Inr x \<Rightarrow> map_of (updated_contacts m) (monica_id) = Some True
        | Inl e \<Rightarrow> True)"
proof -
  from assms have res: "while_true (delete_contact_field_body remote field_id monica_id name) self = Some (res, m)"
    by (simp add: delete_contact_field_def)
  from keeps_while_true [OF keeps_database_delete_contact_field res]
  have db: "database m = database self" .
  from res obtain t where
    "case res of Inr x \<Rightarrow> delete_contact_field_body remote field_id monica_id name t = Return x m
     | Inl e \<Rightarrow> delete_contact_field_body remote field_id monica_id name t = Raise e m"
    by (rule while_true_result [where I = "\<lambda>t. True"]) simp_all
  then have "case res of Inr x \<Rightarrow> map_of (updated_contacts m) (monica_id) = Some True
        | Inl e \<Rightarrow> True"
    by (cases res) (simp_all add: delete_contact_field_body_marks)
  with db show ?thesis ..
qed

lemma Database_update_bound:
  "r \<in> set (Database_update monica_id ts nm db) \<Longrightarrow> targetId r = str_id monica_id
     \<Longrightarrow> targetLastChanged r = ts"
  unfolding Database_update_def by (auto split: if_splits)

lemma update_contact_database:
  assumes "update_contact remote monica_id data self = Some (Inr x, m)"
  shows "database m =
     Database_update monica_id (updated_at (json_data (remote (api_requests m - 1))))
       (Some (complete_name (json_data (remote (api_requests m - 1))))) (database self)"
proof -
  let ?s = "self\<lparr>contacts := [c \<leftarrow> contacts self. str_id (contact_id c) \<noteq> str_id monica_id]\<rparr>"
  let ?body = "update_contact_body remote monica_id data
                 (first_name data @ '' '' @ str_opt (last_name data))"
  from assms have res: "while_true ?body ?s = Some (Inr x, m)"
    by (simp add: update_contact_def Let_def)
  from res obtain t where t: "database t = database ?s"
    and e: "?body t = Return x m"
    by (rule while_true_result [where I = "\<lambda>t. database t = database ?s"])
      (auto dest: update_contact_body_Continue)
  from update_contact_body_Return [OF e] t show ?thesis by simp
qed

lemma keeps_database_get_contact:
  "keeps database (get_contact_body remote)"
  unfolding keeps_def get_contact_body_def body_unfold
  by (simp split: retry_after.splits list.splits)

lemma get_contact_except_database:
  "database (snd (get_contact_except monica_id r)) = database (snd r)"
  by (cases "(monica_id, r)" rule: get_contact_except.cases)
    (simp_all add: Let_def log_info_def log_error_def)

lemma get_contact_database:
  assumes "get_contact remote monica_id self = Some (res, m)"
  shows "database m = database self"
proof (cases "contacts self \<noteq> []
    \<and> [c \<leftarrow> contacts self. str_id (contact_id c) = str_id monica_id] \<noteq> []")
  case True
  with assms show ?thesis by (simp add: get_contact_def Let_def)
next
  case False
  with assms obtain r where w: "while_true (get_contact_body remote) self = Some r"
    and r: "get_contact_except monica_id r = (res, m)"
    by (auto simp: get_contact_def Let_def)
  from keeps_while_true [OF keeps_database_get_contact, of remote self "fst r" "snd r"] w
  have "database (snd r) = database self" by simp
  with get_contact_except_database [of monica_id r] r show ?thesis by simp
qed

lemma update_career_body_Continue:
  "update_career_body remote monica_id name t = Continue u \<Longrightarrow> database u = database t"
  unfolding update_career_body_def body_unfold
  by (auto split: if_splits retry_after.splits)

lemma update_career_body_Return:
  "update_career_body remote monica_id name t = Return x m \<Longrightarrow>
     api_requests m = Suc (api_requests t)
     \<and> database m =
         Database_update monica_id (updated_at (json_data (remote (api_requests t))))
           None (database t)"
  unfolding update_career_body_def body_unfold
  by (auto split: if_splits retry_after.splits)

lemma update_career_database:
  assumes "update_career remote monica_id data self = Some (Inr x, m)"
  shows "database m =
     Database_update monica_id (updated_at (json_data (remote (api_requests m - 1))))
       None (database self)"
proof -
  from assms obtain contact s' where g: "get_contact remote monica_id self = Some (Inr contact, s')"
    and res: "while_true (update_career_body remote monica_id (complete_name contact)) s'
                = Some (Inr x, m)"
    by (auto simp: update_career_def Let_def split: option.splits sum.splits)
  from get_contact_database [OF g] have db: "database s' = database self" .
  from res obtain t where t: "database t = database s'"
    and e: "update_career_body remote monica_id (complete_name contact) t = Return x m"
    by (rule while_true_result [where I = "\<lambda>t. database t = database s'"])
      (auto dest: update_career_body_Continue)
  from update_career_body_Return [OF e] t db show ?thesis by simp
qed

lemma str_int_1: "str_int 1 = ''1''"
  by code_simp

lemma str_int_2: "str_int 2 = ''2''"
  by code_simp

lemma session_without_ada:
  "[c \<leftarrow> contacts session. str_id (contact_id c) \<noteq> str_id (IdStr ''1'')] = [bob]"
  by (simp add: session_def Monica_init_def ada_def bob_def str_int_1 str_int_2)

text \<open>
  C10. When \<^verbatim>\<open>update_contact\<close> raises (a fetch error or any other exception),
  the cached contact list is the list from before the call without the contacts of the
  given id: the removal that precedes the request is not undone, so the cache holds no
  contact with that id.
\<close>

theorem update_contact_error_leaves_cache_changed:
  "update_contact remote monica_id data self = Some (Inl e, m) \<Longrightarrow>
     contacts m = [c \<leftarrow> contacts self. str_id (contact_id c) \<noteq> str_id monica_id]
     \<and> (\<forall>c \<in> set (contacts m). str_id (contact_id c) \<noteq> str_id monica_id)"
  using update_contact_raise_cache [of remote monica_id data self e m] by simp

theorem update_contact_error_leaves_cache_changed_witness:
  "\<exists>msg m. update_contact (refusing ada) (IdStr ''1'') form0 session
              = Some (Inl (MonicaFetchError msg), m)
           \<and> contacts m = [bob]"
proof -
  have "rejected 200 (refusing ada) (api_requests session)"
    by (rule rejected_now) (simp_all add: refusing_def slow_down_text_def sublist_code)
  then obtain msg m where r: "update_contact (refusing ada) (IdStr ''1'') form0 session
              = Some (Inl (MonicaFetchError msg), m)"
    using update_contact_raises_iff [of "refusing ada" "IdStr ''1''" form0 session] by blast
  from update_contact_error_leaves_cache_changed [OF r, THEN conjunct1]
  have "contacts m = [bob]"
    unfolding session_without_ada .
  with r show ?thesis by (intro exI conjI)
qed

text \<open>
  C2, as the code has it. After a successful top-level contact update and after a
  successful career update, the mapping store is the store from before with the
  record bound to the contact's id carrying the \<^verbatim>\<open>updated_at\<close> timestamp of the
  contact in the accepting response (the contact update also stores the name). The
  note, address, tag and contact-field mutations leave the mapping store as it was,
  whatever their outcome; on success they mark the contact in the session's
  \<^verbatim>\<open>updated_contacts\<close>.
\<close>

theorem database_updated_by_contact_and_career_only:
  "(update_contact remote_contact monica_id data self = Some (Inr x, m) \<longrightarrow>
      database m =
        Database_update monica_id
          (updated_at (json_data (remote_contact (api_requests m - 1))))
          (Some (complete_name (json_data (remote_contact (api_requests m - 1)))))
          (database self)
      \<and> (\<forall>r \<in> set (database m). targetId r = str_id monica_id \<longrightarrow>
            targetLastChanged r =
              updated_at (json_data (remote_contact (api_requests m - 1)))))
   \<and> (update_career remote_contact monica_id career_data self = Some (Inr x, m) \<longrightarrow>
      database m =
        Database_update monica_id
          (updated_at (json_data (remote_contact (api_requests m - 1)))) None
          (database self)
      \<and> (\<forall>r \<in> set (database m). targetId r = str_id monica_id \<longrightarrow>
            targetLastChanged r =
              updated_at (json_data (remote_contact (api_requests m - 1)))))
   \<and> (add_note remote_note note_data name self = Some (res, m) \<longrightarrow>
      database m = database self
      \<and> (case res of Inr x \<Rightarrow> map_of (updated_contacts m) (contact_id_of note_data) = Some True
          | Inl e \<Rightarrow> True))
   \<and> (update_note remote_note note_id note_data name self = Some (res, m) \<longrightarrow>
      database m = database self
      \<and> (case res of Inr x \<Rightarrow> map_of (updated_contacts m) (contact_id_of note_data) = Some True
          | Inl e \<Rightarrow> True))
   \<and> (delete_note remote note_id monica_id name self = Some (res, m) \<longrightarrow>
      database m = database self
      \<and> (case res of Inr x \<Rightarrow> map_of (updated_contacts m) (monica_id) = Some True
          | Inl e \<Rightarrow> True))
   \<and> (remove_tags remote tags_data monica_id name self = Some (res, m) \<longrightarrow>
      database m = database self
      \<and> (case res of Inr x \<Rightarrow> map_of (updated_contacts m) (monica_id) = Some True
          | Inl e \<Rightarrow> True))
   \<and> (add_tags remote tags_data monica_id name self = Some (res, m) \<longrightarrow>
      database m = database self
      \<and> (case res of Inr x \<Rightarrow> map_of (updated_contacts m) (monica_id) = Some True
          | Inl e \<Rightarrow> True))
   \<and> (delete_address remote address_id monica_id name self = Some (res, m) \<longrightarrow>
      database m = database self
      \<and> (case res of Inr x \<Rightarrow> map_of (updated_contacts m) (monica_id) = Some True
          | Inl e \<Rightarrow> True))
   \<and> (create_address remote_address address_data name self = Some (res, m) \<longrightarrow>
      database m = database self
      \<and> (case res of Inr x \<Rightarrow> map_of (updated_contacts m) (contact_id_of address_data) = Some True
          | Inl e \<Rightarrow> True))
   \<and> (create_contact_field remote_field monica_id field_data name self = Some (res, m) \<longrightarrow>
      database m = database self
      \<and> (case res of Inr x \<Rightarrow> map_of (updated_contacts m) (monica_id) = Some True
          | Inl e \<Rightarrow> True))
   \<and> (delete_contact_field remote field_id monica_id name self = Some (res, m) \<longrightarrow>
      database m = database self
      \<and> (case res of Inr x \<Rightarrow> map_of (updated_contacts m) (monica_id) = Some True
          | Inl e \<Rightarrow> True))"
proof -
  have c: "update_contact remote_contact monica_id data self = Some (Inr x, m) \<longrightarrow>
      database m =
        Database_update monica_id
          (updated_at (json_data (remote_contact (api_requests m - 1))))
          (Some (complete_name (json_data (remote_contact (api_requests m - 1)))))
          (database self)
      \<and> (\<forall>r \<in> set (database m). targetId r = str_id monica_id \<longrightarrow>
            targetLastChanged r =
              updated_at (json_data (remote_contact (api_requests m - 1))))"
  proof (intro impI conjI ballI)
    assume r: "update_contact remote_contact monica_id data self = Some (Inr x, m)"
    show db: "database m =
        Database_update monica_id
          (updated_at (json_data (remote_contact (api_requests m - 1))))
          (Some (complete_name (json_data (remote_contact (api_requests m - 1)))))
          (database self)"
      by (rule update_contact_database [OF r])
    fix r' assume "r' \<in> set (database m)" "targetId r' = str_id monica_id"
    then show "targetLastChanged r' =
        updated_at (json_data (remote_contact (api_requests m - 1)))"
      unfolding db by (rule Database_update_bound)
  qed
  have w: "update_career remote_contact monica_id career_data self = Some (Inr x, m) \<longrightarrow>
      database m =
        Database_update monica_id
          (updated_at (json_data (remote_contact (api_requests m - 1)))) None
          (database self)
      \<and> (\<forall>r \<in> set (database m). targetId r = str_id monica_id \<longrightarrow>
            targetLastChanged r =
              updated_at (json_data (remote_contact (api_requests m - 1))))"
  proof (intro impI conjI ballI)
    assume r: "update_career remote_contact monica_id career_data self = Some (Inr x, m)"
    show db: "database m =
        Database_update monica_id
          (updated_at (json_data (remote_contact (api_requests m - 1)))) None
          (database self)"
      by (rule update_career_database [OF r])
    fix r' assume "r' \<in> set (database m)" "targetId r' = str_id monica_id"
    then show "targetLastChanged r' =
        updated_at (json_data (remote_contact (api_requests m - 1)))"
      unfolding db by (rule Database_update_bound)
  qed
  have n0: "add_note remote_note note_data name self = Some (res, m) \<longrightarrow>
      database m = database self
      \<and> (case res of Inr x \<Rightarrow> map_of (updated_contacts m) (contact_id_of note_data) = Some True
          | Inl e \<Rightarrow> True)"
    by (rule impI) (rule add_note_database)
  have n1: "update_note remote_note note_id note_data name self = Some (res, m) \<longrightarrow>
      database m = database self
      \<and> (case res of Inr x \<Rightarrow> map_of (updated_contacts m) (contact_id_of note_data) = Some True
          | Inl e \<Rightarrow> True)"
    by (rule impI) (rule update_note_database)
  have n2: "delete_note remote note_id monica_id name self = Some (res, m) \<longrightarrow>
      database m = database self
      \<and> (case res of Inr x \<Rightarrow> map_of (updated_contacts m) (monica_id) = Some True
          | Inl e \<Rightarrow> True)"
    by (rule impI) (rule delete_note_database)
  have n3: "remove_tags remote tags_data monica_id name self = Some (res, m) \<longrightarrow>
      database m = database self
      \<and> (case res of Inr x \<Rightarrow> map_of (updated_contacts m) (monica_id) = Some True
          | Inl e \<Rightarrow> True)"
    by (rule impI) (rule remove_tags_database)
  have n4: "add_tags remote tags_data monica_id name self = Some (res, m) \<longrightarrow>
      database m = database self
      \<and> (case res of Inr x \<Rightarrow> map_of (updated_contacts m) (monica_id) = Some True
          | Inl e \<Rightarrow> True)"
    by (rule impI) (rule add_tags_database)
  have n5: "delete_address remote address_id monica_id name self = Some (res, m) \<longrightarrow>
      database m = database self
      \<and> (case res of Inr x \<Rightarrow> map_of (updated_contacts m) (monica_id) = Some True
          | Inl e \<Rightarrow> True)"
    by (rule impI) (rule delete_address_database)
  have n6: "create_address remote_address address_data name self = Some (res, m) \<longrightarrow>
      database m = database self
      \<and> (case res of Inr x \<Rightarrow> map_of (updated_contacts m) (contact_id_of address_data) = Some True
          | Inl e \<Rightarrow> True)"
    by (rule impI) (rule create_address_database)
  have n7: "create_contact_field remote_field monica_id field_data name self = Some (res, m) \<longrightarrow>
      database m = database self
      \<and> (case res of Inr x \<Rightarrow> map_of (updated_contacts m) (monica_id) = Some True
          | Inl e \<Rightarrow> True)"
    by (rule impI) (rule create_contact_field_database)
  have n8: "delete_contact_field remote field_id monica_id name self = Some (res, m) \<longrightarrow>
      database m = database self
      \<and> (case res of Inr x \<Rightarrow> map_of (updated_contacts m) (monica_id) = Some True
          | Inl e \<Rightarrow> True)"
    by (rule impI) (rule delete_contact_field_database)
  from c w n0 n1 n2 n3 n4 n5 n6 n7 n8 show ?thesis by (intro conjI)
qed

theorem database_updated_by_contact_and_career_only_witness:
  "\<exists>m. update_contact (accepting 200 ada_changed) (IdStr ''1'') form0 session
           = Some (Inr (), m)
       \<and> database m =
           [link_ada\<lparr>targetLastChanged := ''2022-02-02T00:00:00Z'',
                     targetDisplayName := ''Ada King''\<rparr>]"
proof -
  have "accepted 200 (accepting 200 ada_changed) (api_requests session)"
    by (rule accepted_now) (simp add: accepting_def)
  then obtain x m where r:
    "update_contact (accepting 200 ada_changed) (IdStr ''1'') form0 session = Some (Inr x, m)"
    using update_contact_returns_iff [of "accepting 200 ada_changed" "IdStr ''1''" form0 session]
    by blast
  note inst = database_updated_by_contact_and_career_only
    [where remote_contact = "accepting 200 ada_changed" and monica_id = "IdStr ''1''"
       and data = form0 and self = session and x = x and m = m]
  from inst [THEN conjunct1, THEN mp, OF r, THEN conjunct1]
  have "database m =
        Database_update (IdStr ''1'')
          (updated_at (json_data (accepting 200 ada_changed (api_requests m - 1))))
          (Some (complete_name (json_data (accepting 200 ada_changed (api_requests m - 1)))))
          (database session)" .
  then have "database m =
           [link_ada\<lparr>targetLastChanged := ''2022-02-02T00:00:00Z'',
                     targetDisplayName := ''Ada King''\<rparr>]"
    by (simp add: accepting_def ada_changed_def session_def Monica_init_def
        Database_update_def link_ada_def)
  with r show ?thesis by simp
qed

text \<open>
  C2 as stated fails for the mutations of sub-resources: a note is created for Ada,
  the call returns normally, and the mapping record still carries the earlier
  timestamp.
\<close>

theorem add_note_leaves_database_counterexample:
  "map_option fst
     (add_note (accepting 201 \<lparr>note_ident = IdInt 9\<rparr>) \<lparr>contact_id_of = IdInt 1\<rparr>
        ''Ada Lovelace'' session) = Some (Inr ())
   \<and> map_option (database \<circ> snd)
     (add_note (accepting 201 \<lparr>note_ident = IdInt 9\<rparr>) \<lparr>contact_id_of = IdInt 1\<rparr>
        ''Ada Lovelace'' session) = Some [link_ada]"
proof -
  have "accepted 201 (accepting 201 \<lparr>note_ident = IdInt 9\<rparr>) (api_requests session)"
    by (rule accepted_now) (simp add: accepting_def)
  then obtain x m where r:
    "add_note (accepting 201 \<lparr>note_ident = IdInt 9\<rparr>) \<lparr>contact_id_of = IdInt 1\<rparr>
        ''Ada Lovelace'' session = Some (Inr x, m)"
    using add_note_returns_iff
      [of "accepting 201 \<lparr>note_ident = IdInt 9\<rparr>" "\<lparr>contact_id_of = IdInt 1\<rparr>"
        "''Ada Lovelace''" session]
    by blast
  from add_note_database [OF r] have "database m = [link_ada]"
    by (simp add: session_def Monica_init_def)
  with r show ?thesis by simp
qed

section \<open>The statistics of a session that creates and updates a contact\<close>

lemma create_contact_accepted:
  assumes "status_code (remote (api_requests self)) = 201"
  shows "create_contact remote data reference_id self =
     Some (Inr (json_data (remote (api_requests self))),
       log_info
         (Msg (who reference_id (contact_id (json_data (remote (api_requests self))))
               @ '': Contact created successfully''))
         (self\<lparr>api_requests := Suc (api_requests self),
               created_contacts :=
                 dict_set (contact_id (json_data (remote (api_requests self)))) True
                   (created_contacts self),
               contacts := contacts self @ [json_data (remote (api_requests self))]\<rparr>))"
proof -
  let ?c = "json_data (remote (api_requests self))"
  let ?m = "log_info (Msg (who reference_id (contact_id ?c) @ '': Contact created successfully''))
         (self\<lparr>api_requests := Suc (api_requests self),
               created_contacts := dict_set (contact_id ?c) True (created_contacts self),
               contacts := contacts self @ [?c]\<rparr>)"
  have "create_contact_body remote data reference_id self = Return ?c ?m"
    using assms by (simp add: create_contact_body_def request_def Let_def log_info_def)
  then have "while_true (create_contact_body remote data reference_id) self = Some (Inr ?c, ?m)"
    by (rule while_true_Return)
  then show ?thesis by (simp add: create_contact_def)
qed

lemma update_contact_accepted:
  assumes "status_code (remote (api_requests self)) = 200"
  shows "\<exists>m. update_contact remote monica_id data self = Some (Inr (), m)
     \<and> updated_contacts m = dict_set monica_id True (updated_contacts self)
     \<and> created_contacts m = created_contacts self"
proof -
  let ?s = "self\<lparr>contacts := [c \<leftarrow> contacts self. str_id (contact_id c) \<noteq> str_id monica_id]\<rparr>"
  let ?body = "update_contact_body remote monica_id data
                 (first_name data @ '' '' @ str_opt (last_name data))"
  have "\<exists>m. ?body ?s = Return () m
     \<and> updated_contacts m = dict_set monica_id True (updated_contacts self)
     \<and> created_contacts m = created_contacts self"
    using assms
    by (simp add: update_contact_body_def request_def Let_def log_info_def mark_updated_def)
  then obtain m where b: "?body ?s = Return () m"
    and u: "updated_contacts m = dict_set monica_id True (updated_contacts self)"
    and c: "created_contacts m = created_contacts self" by blast
  from b have "while_true ?body ?s = Some (Inr (), m)" by (rule while_true_Return)
  then have "update_contact remote monica_id data self = Some (Inr (), m)"
    by (simp add: update_contact_def Let_def)
  with u c show ?thesis by blast
qed

lemma str_int_5: "str_int 5 = ''5''"
  by code_simp

text \<open>
  C9 fails in the code. \<^verbatim>\<open>create_contact\<close> files the new contact under the id of
  the remote's JSON, a number; \<^verbatim>\<open>update_contact\<close> files it under the id its caller
  passes, a text. A session creates the contact 5 and then updates it under the id
  \<^verbatim>\<open>5\<close>: after \<^verbatim>\<open>update_statistics\<close> the contact is in the created-contacts
  dictionary and still in the updated-contacts dictionary, although both keys are the
  same contact id (\<^verbatim>\<open>str\<close> of the one is the other). The comment in
  \<^verbatim>\<open>update_statistics\<close> says that a contact should only count as updated if it has
  not been created during sync.
\<close>

theorem update_statistics_counts_created_contact_as_updated:
  "map_option (created_contacts \<circ> update_statistics \<circ> snd) create_then_update
     = Some [(IdInt 5, True)]
   \<and> map_option (updated_contacts \<circ> update_statistics \<circ> snd) create_then_update
     = Some [(IdStr ''5'', True)]
   \<and> str_id (IdInt 5) = str_id (IdStr ''5'')"
proof -
  let ?s0 = "Monica_init [] True [] []"
  have "status_code (accepting 201 eve (api_requests ?s0)) = 201"
    by (simp add: accepting_def)
  from create_contact_accepted [where remote = "accepting 201 eve" and self = ?s0
      and data = form0 and reference_id = "''people/c5''", OF this]
  obtain s1 where c: "create_contact (accepting 201 eve) form0 ''people/c5'' ?s0
      = Some (Inr eve, s1)"
    and c1: "created_contacts s1 = [(IdInt 5, True)]"
    and u1: "updated_contacts s1 = []"
    by (simp add: accepting_def Monica_init_def log_info_def dict_set_def eve_def)
  have "status_code (accepting 200 eve (api_requests s1)) = 200"
    by (simp add: accepting_def)
  from update_contact_accepted [where remote = "accepting 200 eve" and self = s1
      and monica_id = "IdStr ''5''" and data = form0, OF this]
  obtain s2 where u: "update_contact (accepting 200 eve) (IdStr ''5'') form0 s1
      = Some (Inr (), s2)"
    and u2: "updated_contacts s2 = [(IdStr ''5'', True)]"
    and c2: "created_contacts s2 = [(IdInt 5, True)]"
    using c1 u1 by (auto simp: dict_set_def)
  from c u have r: "create_then_update = Some (Inr (), s2)"
    by (simp add: create_then_update_def)
  show ?thesis
    unfolding r by (simp add: update_statistics_def u2 c2 str_int_5)
qed

section \<open>The upload form and the gender table\<close>

lemma get_gender_mapping_accepted:
  assumes "gender_mapping self = []" and "status_code (remote (api_requests self)) = 200"
  shows "get_gender_mapping remote self =
     Some (Inr (dict_of (map (\<lambda>g. (gender_type g, gender_ident g))
                    (json_data (remote (api_requests self))))),
           self\<lparr>api_requests := Suc (api_requests self),
                gender_mapping := dict_of (map (\<lambda>g. (gender_type g, gender_ident g))
                    (json_data (remote (api_requests self))))\<rparr>)"
proof -
  let ?mp = "dict_of (map (\<lambda>g. (gender_type g, gender_ident g))
                    (json_data (remote (api_requests self))))"
  let ?m = "self\<lparr>api_requests := Suc (api_requests self), gender_mapping := ?mp\<rparr>"
  have "get_gender_mapping_body remote self = Return ?mp ?m"
    using assms(2) by (simp add: get_gender_mapping_body_def request_def Let_def)
  then have "while_true (get_gender_mapping_body remote) self = Some (Inr ?mp, ?m)"
    by (rule while_true_Return)
  with assms(1) show ?thesis
    by (simp add: get_gender_mapping_def)
qed

lemma upload_form_cases:
  "MonicaContactUploadForm remote monica args =
     (case get_gender_mapping remote monica of
        None \<Rightarrow> None
      | Some (Inl e, m) \<Rightarrow> Some (Inl e, m)
      | Some (Inr mapping, m) \<Rightarrow>
          (case map_of mapping (arg_gender_type args) of
             None \<Rightarrow> Some (Inl (KeyError (arg_gender_type args)), m)
           | Some gid \<Rightarrow> Some (Inr (form_of args gid), m)))"
  by (simp add: MonicaContactUploadForm_def form_of_def
      split: option.splits sum.splits prod.splits)

text \<open>
  C7, as the code has it. Building the upload form succeeds exactly when
  \<^verbatim>\<open>get_gender_mapping\<close> returns a dictionary that has the gender type among
  its keys; the form then carries the id stored under that key and the arguments.
  When the key is missing the constructor raises KeyError; when fetching the genders
  raises, so does the constructor; when it does not return, neither does the
  constructor.
\<close>

theorem upload_form_needs_gender_key:
  "(get_gender_mapping remote monica = Some (Inr mapping, m) \<longrightarrow>
      MonicaContactUploadForm remote monica args =
        (case map_of mapping (arg_gender_type args) of
           None \<Rightarrow> Some (Inl (KeyError (arg_gender_type args)), m)
         | Some gid \<Rightarrow> Some (Inr (form_of args gid), m)))
   \<and> (get_gender_mapping remote monica = Some (Inl e, m) \<longrightarrow>
      MonicaContactUploadForm remote monica args = Some (Inl e, m))
   \<and> (get_gender_mapping remote monica = None \<longrightarrow>
      MonicaContactUploadForm remote monica args = None)
   \<and> ((\<exists>form m. MonicaContactUploadForm remote monica args = Some (Inr form, m)) \<longleftrightarrow>
      (\<exists>mapping m. get_gender_mapping remote monica = Some (Inr mapping, m)
         \<and> arg_gender_type args \<in> fst ` set mapping))"
proof -
  have iff: "(\<exists>form m. MonicaContactUploadForm remote monica args = Some (Inr form, m)) \<longleftrightarrow>
      (\<exists>mapping m. get_gender_mapping remote monica = Some (Inr mapping, m)
         \<and> arg_gender_type args \<in> fst ` set mapping)"
  proof (cases "get_gender_mapping remote monica")
    case None
    then show ?thesis by (simp add: upload_form_cases)
  next
    case (Some r)
    obtain res m' where r: "r = (res, m')" by (cases r)
    show ?thesis
    proof (cases res)
      case (Inl e')
      with Some r show ?thesis by (simp add: upload_form_cases)
    next
      case (Inr mp)
      show ?thesis
      proof (cases "map_of mp (arg_gender_type args)")
        case None
        then have "arg_gender_type args \<notin> fst ` set mp" by (simp add: map_of_eq_None_iff)
        with Some r Inr None show ?thesis by (simp add: upload_form_cases)
      next
        case (Some gid)
        then have "arg_gender_type args \<in> fst ` set mp"
          by (metis map_of_eq_None_iff option.distinct(1))
        with \<open>get_gender_mapping remote monica = Some r\<close> r Inr Some show ?thesis
          by (simp add: upload_form_cases)
      qed
    qed
  qed
  show ?thesis
    by (intro conjI impI iff) (simp_all add: upload_form_cases)
qed

theorem upload_form_needs_gender_key_witness:
  "MonicaContactUploadForm (refusing two_genders)
     ((Monica_init [] True [] [])\<lparr>gender_mapping := [(''M'', 1), (''F'', 2), (''O'', 3)]\<rparr>)
     (default_form_args ''Ada'')
   = Some (Inr (form_of (default_form_args ''Ada'') 3),
           (Monica_init [] True [] [])\<lparr>gender_mapping := [(''M'', 1), (''F'', 2), (''O'', 3)]\<rparr>)"
proof -
  let ?s = "(Monica_init [] True [] [])\<lparr>gender_mapping := [(''M'', 1), (''F'', 2), (''O'', 3)]\<rparr>"
  have g: "get_gender_mapping (refusing two_genders) ?s
             = Some (Inr [(''M'', 1), (''F'', 2), (''O'', 3)], ?s)"
    by (simp add: get_gender_mapping_def)
  from upload_form_needs_gender_key
    [of "refusing two_genders" ?s "[(''M'', 1), (''F'', 2), (''O'', 3)]" ?s
      "default_form_args ''Ada''", THEN conjunct1, THEN mp, OF g]
  show ?thesis by (simp add: default_form_args_def)
qed

text \<open>
  C7 as stated fails: the remote lists two genders, none of type \<^verbatim>\<open>O\<close>, and the
  constructor called with the default gender type raises KeyError.
\<close>

theorem upload_form_missing_gender_counterexample:
  "map_option fst
     (MonicaContactUploadForm (accepting 200 two_genders) (Monica_init [] True [] [])
        (default_form_args ''Ada''))
   = Some (Inl (KeyError ''O''))"
proof -
  have "get_gender_mapping (accepting 200 two_genders) (Monica_init [] True [] []) =
     Some (Inr [(''M'', 1), (''F'', 2)],
           (Monica_init [] True [] [])
             \<lparr>api_requests := Suc 0, gender_mapping := [(''M'', 1), (''F'', 2)]\<rparr>)"
    using get_gender_mapping_accepted
      [of "Monica_init [] True [] []" "accepting 200 two_genders"]
    by (simp add: Monica_init_def accepting_def two_genders_def dict_of_def dict_set_def)
  then show ?thesis
    by (simp add: upload_form_cases default_form_args_def)
qed

section \<open>Fetching one contact\<close>

lemma filter_single:
  "filter_contacts_by_label self [c] =
     (if eligible (label_include self) (label_exclude self) c then [c] else [])"
  by (simp add: filter_contacts_by_label_filter)

lemma get_contact_body_cases:
  "get_contact_body remote s =
     (if status_code (remote (api_requests s)) = 200 then
        (if eligible (label_include s) (label_exclude s) (json_data (remote (api_requests s)))
         then Return (json_data (remote (api_requests s)))
                (s\<lparr>api_requests := Suc (api_requests s),
                   contacts := contacts s @ [json_data (remote (api_requests s))]\<rparr>)
         else Raise (IndexError ''list index out of range'')
                (s\<lparr>api_requests := Suc (api_requests s)\<rparr>))
      else if \<not> sublist slow_down_text (error_message (remote (api_requests s)))
      then Raise (MonicaFetchError (error_message (remote (api_requests s))))
             (s\<lparr>api_requests := Suc (api_requests s)\<rparr>)
      else (case retry_seconds (remote (api_requests s)) of
              Some sec \<Rightarrow> Continue (wait sec s)
            | None \<Rightarrow> Raise (header_error (remote (api_requests s)))
                       (s\<lparr>api_requests := Suc (api_requests s)\<rparr>)))"
  by (simp add: get_contact_body_def body_unfold filter_single retry_seconds_def header_error_def
      wait_def split: retry_after.splits)

lemma get_contact_body_step:
  assumes "rate_limited 200 (remote (api_requests s))"
    and "retry_seconds (remote (api_requests s)) = Some sec"
  shows "get_contact_body remote s = Continue (wait sec s)"
  using assms by (simp add: get_contact_body_cases rate_limited_def)

lemma get_contact_loop_skip:
  assumes ru: "retried_until 200 remote (api_requests self) n"
  shows "while_true (get_contact_body remote) self =
     while_true (get_contact_body remote) (waited 200 remote n self)"
proof -
  have "while_true (get_contact_body remote) ((\<lambda>s. s) self) =
      while_true (get_contact_body remote) ((\<lambda>s. s) (waited 200 remote n self))"
  proof (rule loop_skips_retried [where put = "\<lambda>s. s" and ok = 200 and remote = remote])
    fix s :: monica and sec
    assume "rate_limited 200 (remote (api_requests s))"
      and "retry_seconds (remote (api_requests s)) = Some sec"
    then show "get_contact_body remote s = Continue (wait sec s)"
      by (rule get_contact_body_step)
  next
    show "retried_until 200 remote (api_requests self) n" by (rule ru)
  qed
  then show ?thesis by simp
qed

text \<open>
  What the loop of \<^verbatim>\<open>get_contact\<close> returns or raises, and the object it leaves,
  when \<open>n\<close> retried responses are followed by a response that is not retried.
\<close>

lemma get_contact_loop_lands:
  assumes ru: "retried_until 200 remote (api_requests self) n"
    and nr: "\<not> retried 200 (remote (api_requests self + n))"
  shows "while_true (get_contact_body remote) self =
     Some (if status_code (remote (api_requests self + n)) = 200 then
             (if eligible (label_include self) (label_exclude self)
                   (json_data (remote (api_requests self + n)))
              then (Inr (json_data (remote (api_requests self + n))),
                    (waited 200 remote n self)
                      \<lparr>api_requests := Suc (api_requests self + n),
                       contacts := contacts self @ [json_data (remote (api_requests self + n))]\<rparr>)
              else (Inl (IndexError ''list index out of range''),
                    (waited 200 remote n self)\<lparr>api_requests := Suc (api_requests self + n)\<rparr>))
           else if \<not> sublist slow_down_text (error_message (remote (api_requests self + n)))
           then (Inl (MonicaFetchError (error_message (remote (api_requests self + n)))),
                 (waited 200 remote n self)\<lparr>api_requests := Suc (api_requests self + n)\<rparr>)
           else (Inl (header_error (remote (api_requests self + n))),
                 (waited 200 remote n self)\<lparr>api_requests := Suc (api_requests self + n)\<rparr>))"
proof -
  let ?t = "waited 200 remote n self"
  let ?r = "remote (api_requests self + n)"
  have skip: "while_true (get_contact_body remote) self = while_true (get_contact_body remote) ?t"
    using ru by (rule get_contact_loop_skip)
  have t: "api_requests ?t = api_requests self + n" "label_include ?t = label_include self"
    "label_exclude ?t = label_exclude self" "contacts ?t = contacts self"
    by (simp_all add: waited_def)
  from nr have none: "status_code ?r \<noteq> 200 \<Longrightarrow> sublist slow_down_text (error_message ?r) \<Longrightarrow>
      retry_seconds ?r = None"
    by (simp add: retried_def rate_limited_def)
  show ?thesis
  proof (cases "status_code ?r = 200")
    case True
    show ?thesis
    proof (cases "eligible (label_include self) (label_exclude self) (json_data ?r)")
      case e: True
      from True e have "get_contact_body remote ?t =
          Return (json_data ?r)
            (?t\<lparr>api_requests := Suc (api_requests self + n),
                contacts := contacts self @ [json_data ?r]\<rparr>)"
        by (simp add: get_contact_body_cases t)
      then have "while_true (get_contact_body remote) ?t =
          Some (Inr (json_data ?r),
            ?t\<lparr>api_requests := Suc (api_requests self + n),
                contacts := contacts self @ [json_data ?r]\<rparr>)"
        by (rule while_true_Return)
      with skip True e show ?thesis by simp
    next
      case e: False
      from True e have "get_contact_body remote ?t =
          Raise (IndexError ''list index out of range'')
            (?t\<lparr>api_requests := Suc (api_requests self + n)\<rparr>)"
        by (simp add: get_contact_body_cases t)
      then have "while_true (get_contact_body remote) ?t =
          Some (Inl (IndexError ''list index out of range''),
            ?t\<lparr>api_requests := Suc (api_requests self + n)\<rparr>)"
        by (rule while_true_Raise)
      with skip True e show ?thesis by simp
    qed
  next
    case False
    show ?thesis
    proof (cases "sublist slow_down_text (error_message ?r)")
      case s: True
      from False s none have "get_contact_body remote ?t =
          Raise (header_error ?r) (?t\<lparr>api_requests := Suc (api_requests self + n)\<rparr>)"
        by (simp add: get_contact_body_cases t)
      then have "while_true (get_contact_body remote) ?t =
          Some (Inl (header_error ?r), ?t\<lparr>api_requests := Suc (api_requests self + n)\<rparr>)"
        by (rule while_true_Raise)
      with skip False s show ?thesis by simp
    next
      case s: False
      from False s have "get_contact_body remote ?t =
          Raise (MonicaFetchError (error_message ?r))
            (?t\<lparr>api_requests := Suc (api_requests self + n)\<rparr>)"
        by (simp add: get_contact_body_cases t)
      then have "while_true (get_contact_body remote) ?t =
          Some (Inl (MonicaFetchError (error_message ?r)),
            ?t\<lparr>api_requests := Suc (api_requests self + n)\<rparr>)"
        by (rule while_true_Raise)
      with skip False s show ?thesis by simp
    qed
  qed
qed

lemma get_contact_except_header_error:
  "get_contact_except monica_id (Inl (header_error r), s) =
     (Inl (MonicaFetchError (fetch_failed_text monica_id (str_error (header_error r)))),
      log_error (Msg (fetch_failed_text monica_id (str_error (header_error r)))) s)"
  by (simp add: header_error_def fetch_failed_text_def Let_def split: retry_after.splits)

lemma get_contact_miss:
  assumes "[c \<leftarrow> contacts self. str_id (contact_id c) = str_id monica_id] = []"
  shows "get_contact remote monica_id self =
     map_option (get_contact_except monica_id) (while_true (get_contact_body remote) self)"
  using assms by (simp add: get_contact_def Let_def)

lemma get_contact_hit:
  assumes "[c \<leftarrow> contacts self. str_id (contact_id c) = str_id monica_id] \<noteq> []"
  shows "get_contact remote monica_id self =
     Some (Inr (hd [c \<leftarrow> contacts self. str_id (contact_id c) = str_id monica_id]), self)"
proof -
  from assms have "contacts self \<noteq> []" by auto
  with assms show ?thesis by (simp add: get_contact_def Let_def)
qed

text \<open>
  The same for the call: the result, and the object with its log.
\<close>

lemma get_contact_lands:
  assumes miss: "[c \<leftarrow> contacts self. str_id (contact_id c) = str_id monica_id] = []"
    and ru: "retried_until 200 remote (api_requests self) n"
    and nr: "\<not> retried 200 (remote (api_requests self + n))"
  shows "get_contact remote monica_id self =
     Some (contact_outcome self monica_id (remote (api_requests self + n)),
       if status_code (remote (api_requests self + n)) = 200 then
         (if eligible (label_include self) (label_exclude self)
               (json_data (remote (api_requests self + n)))
          then (waited 200 remote n self)
                 \<lparr>api_requests := Suc (api_requests self + n),
                  contacts := contacts self @ [json_data (remote (api_requests self + n))]\<rparr>
          else log_info (Msg (excluded_text monica_id))
                 ((waited 200 remote n self)\<lparr>api_requests := Suc (api_requests self + n)\<rparr>))
       else log_error
              (Msg (fetch_failed_text monica_id (error_text (remote (api_requests self + n)))))
              ((waited 200 remote n self)\<lparr>api_requests := Suc (api_requests self + n)\<rparr>))"
  unfolding get_contact_miss [OF miss] get_contact_loop_lands [OF ru nr]
  by (simp add: contact_outcome_def excluded_text_def fetch_failed_text_def error_text_def
      get_contact_except_header_error Let_def)

lemma get_contact_answers:
  assumes miss: "[c \<leftarrow> contacts self. str_id (contact_id c) = str_id monica_id] = []"
  shows "(\<exists>r. get_contact remote monica_id self = Some r) \<longleftrightarrow>
     answers 200 remote (api_requests self)"
proof
  assume "\<exists>r. get_contact remote monica_id self = Some r"
  then have ex: "\<exists>r. while_true (get_contact_body remote) self = Some r"
    unfolding get_contact_miss [OF miss] by auto
  show "answers 200 remote (api_requests self)"
  proof (rule ccontr)
    assume no: "\<not> answers 200 remote (api_requests self)"
    have "while_true (get_contact_body remote) self = None"
    proof (rule while_true_None [where I = "\<lambda>t. api_requests self \<le> api_requests t"])
      show "api_requests self \<le> api_requests self" by simp
    next
      fix u :: monica assume le: "api_requests self \<le> api_requests u"
      with no have "retried 200 (remote (api_requests u))" unfolding answers_def by blast
      from retriedD [OF this] obtain sec where
        "rate_limited 200 (remote (api_requests u))"
        "retry_seconds (remote (api_requests u)) = Some sec" by blast
      then have "get_contact_body remote u = Continue (wait sec u)"
        by (rule get_contact_body_step)
      with le show "\<exists>u'. get_contact_body remote u = Continue u'
          \<and> api_requests self \<le> api_requests u'"
        by (simp add: wait_def)
    qed
    with ex show False by simp
  qed
next
  assume "answers 200 remote (api_requests self)"
  from answers_first [OF this] obtain n where
    "retried_until 200 remote (api_requests self) n"
    "\<not> retried 200 (remote (api_requests self + n))" by blast
  from get_contact_lands [OF miss this] show "\<exists>r. get_contact remote monica_id self = Some r"
    by blast
qed

lemma get_contact_landed:
  assumes miss: "[c \<leftarrow> contacts self. str_id (contact_id c) = str_id monica_id] = []"
    and res: "get_contact remote monica_id self = Some (res, m)"
  shows "\<exists>n. retried_until 200 remote (api_requests self) n
     \<and> \<not> retried 200 (remote (api_requests self + n))
     \<and> ends_after 200 remote n self m
     \<and> res = contact_outcome self monica_id (remote (api_requests self + n))"
proof -
  from res have "\<exists>r. get_contact remote monica_id self = Some r" by blast
  then have "answers 200 remote (api_requests self)"
    by (simp only: get_contact_answers [OF miss])
  from answers_first [OF this] obtain n where
    ru: "retried_until 200 remote (api_requests self) n"
    and nr: "\<not> retried 200 (remote (api_requests self + n))" by blast
  from res have "res = contact_outcome self monica_id (remote (api_requests self + n))"
    and "ends_after 200 remote n self m"
    unfolding get_contact_lands [OF miss ru nr]
    by (auto simp: ends_after_def waited_def log_info_def log_error_def split: if_splits)
  with ru nr show ?thesis by blast
qed

text \<open>
  C8, as the code has it. \<^verbatim>\<open>get_contact\<close> applies the label filter only to a
  contact it fetches. When a contact with the id is in the cache, the call returns the
  first such contact as it is cached: it issues no request, applies no filter and
  leaves the object as it is. When none is cached, the call requests the contact and
  reissues the request after every retried rate-limit response; if the first other
  response is a success, the call returns the contact and appends it to the cache if
  the label filter admits it, and if the filter drops it, the call logs the exclusion
  at level INFO, leaves the cache as it was and raises InternalError with the same
  message: it does not return, and the error is not a MonicaFetchError. The call
  raises InternalError in this case only.
\<close>

theorem get_contact_filters_fetched_contacts_only:
  "([c \<leftarrow> contacts self. str_id (contact_id c) = str_id monica_id] \<noteq> [] \<longrightarrow>
      get_contact remote monica_id self =
        Some (Inr (hd [c \<leftarrow> contacts self. str_id (contact_id c) = str_id monica_id]), self))
   \<and> ([c \<leftarrow> contacts self. str_id (contact_id c) = str_id monica_id] = []
      \<and> retried_until 200 remote (api_requests self) n
      \<and> status_code (remote (api_requests self + n)) = 200 \<longrightarrow>
      get_contact remote monica_id self =
        (if eligible (label_include self) (label_exclude self)
              (json_data (remote (api_requests self + n)))
         then Some (Inr (json_data (remote (api_requests self + n))),
                (waited 200 remote n self)
                  \<lparr>api_requests := Suc (api_requests self + n),
                   contacts := contacts self @ [json_data (remote (api_requests self + n))]\<rparr>)
         else Some (Inl (InternalError (excluded_text monica_id)),
                log_info (Msg (excluded_text monica_id))
                  ((waited 200 remote n self)\<lparr>api_requests := Suc (api_requests self + n)\<rparr>))))
   \<and> (get_contact remote monica_id self = Some (Inl (InternalError msg), m) \<longrightarrow>
      msg = excluded_text monica_id
      \<and> [c \<leftarrow> contacts self. str_id (contact_id c) = str_id monica_id] = []
      \<and> (\<exists>k. retried_until 200 remote (api_requests self) k
            \<and> status_code (remote (api_requests self + k)) = 200
            \<and> \<not> eligible (label_include self) (label_exclude self)
                  (json_data (remote (api_requests self + k)))))"
proof -
  have hit: "[c \<leftarrow> contacts self. str_id (contact_id c) = str_id monica_id] \<noteq> [] \<longrightarrow>
      get_contact remote monica_id self =
        Some (Inr (hd [c \<leftarrow> contacts self. str_id (contact_id c) = str_id monica_id]), self)"
    by (rule impI) (rule get_contact_hit)
  have fetched: "[c \<leftarrow> contacts self. str_id (contact_id c) = str_id monica_id] = []
      \<and> retried_until 200 remote (api_requests self) n
      \<and> status_code (remote (api_requests self + n)) = 200 \<longrightarrow>
      get_contact remote monica_id self =
        (if eligible (label_include self) (label_exclude self)
              (json_data (remote (api_requests self + n)))
         then Some (Inr (json_data (remote (api_requests self + n))),
                (waited 200 remote n self)
                  \<lparr>api_requests := Suc (api_requests self + n),
                   contacts := contacts self @ [json_data (remote (api_requests self + n))]\<rparr>)
         else Some (Inl (InternalError (excluded_text monica_id)),
                log_info (Msg (excluded_text monica_id))
                  ((waited 200 remote n self)\<lparr>api_requests := Suc (api_requests self + n)\<rparr>)))"
  proof (rule impI)
    assume h: "[c \<leftarrow> contacts self. str_id (contact_id c) = str_id monica_id] = []
        \<and> retried_until 200 remote (api_requests self) n
        \<and> status_code (remote (api_requests self + n)) = 200"
    then have miss: "[c \<leftarrow> contacts self. str_id (contact_id c) = str_id monica_id] = []"
      and ru: "retried_until 200 remote (api_requests self) n"
      and ok: "status_code (remote (api_requests self + n)) = 200" by simp_all
    from ok have nr: "\<not> retried 200 (remote (api_requests self + n))"
      by (simp add: retried_def rate_limited_def)
    show "get_contact remote monica_id self =
          (if eligible (label_include self) (label_exclude self)
                (json_data (remote (api_requests self + n)))
           then Some (Inr (json_data (remote (api_requests self + n))),
                  (waited 200 remote n self)
                    \<lparr>api_requests := Suc (api_requests self + n),
                     contacts := contacts self @ [json_data (remote (api_requests self + n))]\<rparr>)
           else Some (Inl (InternalError (excluded_text monica_id)),
                  log_info (Msg (excluded_text monica_id))
                    ((waited 200 remote n self)\<lparr>api_requests := Suc (api_requests self + n)\<rparr>)))"
      unfolding get_contact_lands [OF miss ru nr] using ok
      by (simp add: contact_outcome_def)
  qed
  have only: "get_contact remote monica_id self = Some (Inl (InternalError msg), m) \<longrightarrow>
      msg = excluded_text monica_id
      \<and> [c \<leftarrow> contacts self. str_id (contact_id c) = str_id monica_id] = []
      \<and> (\<exists>k. retried_until 200 remote (api_requests self) k
            \<and> status_code (remote (api_requests self + k)) = 200
            \<and> \<not> eligible (label_include self) (label_exclude self)
                  (json_data (remote (api_requests self + k))))"
  proof (rule impI)
    assume res: "get_contact remote monica_id self = Some (Inl (InternalError msg), m)"
    have miss: "[c \<leftarrow> contacts self. str_id (contact_id c) = str_id monica_id] = []"
    proof (rule ccontr)
      assume "[c \<leftarrow> contacts self. str_id (contact_id c) = str_id monica_id] \<noteq> []"
      from get_contact_hit [OF this, of remote] res show False by simp
    qed
    from get_contact_landed [OF miss res] obtain k where
      ru: "retried_until 200 remote (api_requests self) k"
      and out: "Inl (InternalError msg)
          = contact_outcome self monica_id (remote (api_requests self + k))" by blast
    from out have "msg = excluded_text monica_id"
      and "status_code (remote (api_requests self + k)) = 200"
      and "\<not> eligible (label_include self) (label_exclude self)
              (json_data (remote (api_requests self + k)))"
      by (simp_all add: contact_outcome_def split: if_splits)
    with miss ru show "msg = excluded_text monica_id
        \<and> [c \<leftarrow> contacts self. str_id (contact_id c) = str_id monica_id] = []
        \<and> (\<exists>k. retried_until 200 remote (api_requests self) k
              \<and> status_code (remote (api_requests self + k)) = 200
              \<and> \<not> eligible (label_include self) (label_exclude self)
                    (json_data (remote (api_requests self + k))))"
      by blast
  qed
  from hit fetched only show ?thesis by (intro conjI)
qed

theorem get_contact_filters_fetched_contacts_only_witness:
  "get_contact (accepting 200 bob) (IdStr ''1'') session = Some (Inr ada, session)
   \<and> get_contact (slow_then_accept bob) (IdStr ''2'') (Monica_init [] True [''friends''] [])
     = Some (Inl (InternalError ''Contact processing of '2' not allowed by label filter''),
         (Monica_init [] True [''friends''] [])
           \<lparr>api_requests := 2, slept := [60],
            log := [(INFO, Msg ''Contact processing of '2' not allowed by label filter'')]\<rparr>)
   \<and> (\<exists>k. retried_until 200 (slow_then_accept bob) 0 k
          \<and> status_code (slow_then_accept bob k) = 200
          \<and> \<not> eligible [''friends''] [] (json_data (slow_then_accept bob k)))"
proof -
  let ?s = "Monica_init [] True [''friends''] []"
  note hit = get_contact_filters_fetched_contacts_only
    [where self = session and monica_id = "IdStr ''1''" and remote = "accepting 200 bob",
      THEN conjunct1]
  note fetched = get_contact_filters_fetched_contacts_only
    [where self = ?s and monica_id = "IdStr ''2''" and remote = "slow_then_accept bob"
       and n = "Suc 0", THEN conjunct2, THEN conjunct1]
  have a: "get_contact (accepting 200 bob) (IdStr ''1'') session = Some (Inr ada, session)"
    using hit by (simp add: session_def Monica_init_def ada_def bob_def str_int_1 str_int_2)
  have ru: "retried_until 200 (slow_then_accept bob) (api_requests ?s) (Suc 0)"
    by (simp add: retried_until_def slow_then_accept_def slowing_retried Monica_init_def)
  have w: "waits 200 (slow_then_accept bob) 0 (Suc 0) = [60]"
    by (simp add: waits_def slow_then_accept_def slowing_def rate_limited_def
        retry_seconds_def sleep_max_def)
  have b: "get_contact (slow_then_accept bob) (IdStr ''2'') ?s
     = Some (Inl (InternalError ''Contact processing of '2' not allowed by label filter''),
         ?s\<lparr>api_requests := 2, slept := [60],
            log := [(INFO, Msg ''Contact processing of '2' not allowed by label filter'')]\<rparr>)"
    using fetched ru w
    by (simp add: Monica_init_def slow_then_accept_def accepting_def eligible_def bob_def
        excluded_text_def quoted_def log_info_def waited_def)
  note only = get_contact_filters_fetched_contacts_only
    [where self = ?s and monica_id = "IdStr ''2''" and remote = "slow_then_accept bob",
      THEN conjunct2, THEN conjunct2, rule_format, OF b]
  from only have c: "\<exists>k. retried_until 200 (slow_then_accept bob) 0 k
          \<and> status_code (slow_then_accept bob k) = 200
          \<and> \<not> eligible [''friends''] [] (json_data (slow_then_accept bob k))"
    by (simp add: Monica_init_def)
  from a b c show ?thesis by (intro conjI)
qed

text \<open>
  C8 as stated fails: Bob carries no label and the include list is not empty, so the
  label filter drops him; the session has created him, which puts him into the cache,
  and \<^verbatim>\<open>get_contact\<close> returns him.
\<close>

theorem get_contact_returns_cached_excluded_contact_counterexample:
  "map_option fst create_then_get = Some (Inr bob)
   \<and> filter_contacts_by_label (Monica_init [] True [''friends''] []) [bob] = []"
proof -
  let ?s = "Monica_init [] True [''friends''] []"
  have "status_code (accepting 201 bob (api_requests ?s)) = 201"
    by (simp add: accepting_def)
  from create_contact_accepted [where remote = "accepting 201 bob" and self = ?s
      and data = form0 and reference_id = "''people/c2''", OF this]
  obtain s1 where c: "create_contact (accepting 201 bob) form0 ''people/c2'' ?s
      = Some (Inr bob, s1)"
    and c1: "contacts s1 = [bob]"
    by (simp add: accepting_def Monica_init_def log_info_def)
  have "get_contact (accepting 200 bob) (IdStr ''2'') s1 = Some (Inr bob, s1)"
    by (simp add: get_contact_def c1 bob_def str_int_2)
  with c have r: "create_then_get = Some (Inr bob, s1)"
    by (simp add: create_then_get_def)
  have f: "filter_contacts_by_label ?s [bob] = []"
    by (simp add: filter_contacts_by_label_def Monica_init_def bob_def)
  show ?thesis unfolding r by (simp add: f)
qed

section \<open>Career updates\<close>

lemma update_career_body_rejected:
  assumes "status_code (remote (api_requests s)) \<noteq> 200"
    and "\<not> sublist slow_down_text (error_message (remote (api_requests s)))"
  shows "update_career_body remote monica_id name s =
     Continue (log_warning (career_warning name monica_id (error_message (remote (api_requests s))))
                 (s\<lparr>api_requests := Suc (api_requests s)\<rparr>))"
  using assms
  by (simp add: update_career_body_def request_def Let_def failed_response_cases
      career_warning_def)

lemma update_career_body_accepted:
  assumes "status_code (remote (api_requests s)) = 200"
  shows "\<exists>m. update_career_body remote monica_id name s = Return () m
           \<and> set (log s) \<subseteq> set (log m)"
  using assms
  by (auto simp: update_career_body_def request_def Let_def mark_updated_def log_info_def)

lemma update_career_body_Raise:
  "update_career_body remote monica_id name t = Raise e m \<Longrightarrow> e \<noteq> MonicaFetchError msg"
  unfolding update_career_body_def body_unfold
  by (auto split: if_splits retry_after.splits)

lemma update_career_loop_no_fetch_error:
  "while_true (update_career_body remote monica_id name) s
     \<noteq> Some (Inl (MonicaFetchError msg), m)"
proof
  assume res: "while_true (update_career_body remote monica_id name) s
     = Some (Inl (MonicaFetchError msg), m)"
  from res obtain t where
    "case (Inl (MonicaFetchError msg) :: error + unit) of
       Inr x \<Rightarrow> update_career_body remote monica_id name t = Return x m
     | Inl e \<Rightarrow> update_career_body remote monica_id name t = Raise e m"
    by (rule while_true_result [where I = "\<lambda>t. True"]) simp_all
  then have "update_career_body remote monica_id name t = Raise (MonicaFetchError msg) m"
    by simp
  from update_career_body_Raise [OF this, of msg] show False by simp
qed

lemma update_career_after_get_contact:
  "get_contact remote monica_id self = Some (Inr contact, s) \<Longrightarrow>
     update_career remote monica_id data self =
       while_true (update_career_body remote monica_id (complete_name contact)) s"
  by (simp add: update_career_def Let_def)

lemma get_contact_cached_ada:
  "get_contact remote (IdStr ''1'') session = Some (Inr ada, session)"
  by (simp add: get_contact_def session_def Monica_init_def ada_def bob_def
      str_int_1 str_int_2)

text \<open>
  C4. When \<^verbatim>\<open>update_career\<close> has its contact and the remote answers the request
  with an error that is not a rate-limit error, the call logs a warning and raises
  nothing: it goes on with the loop, and when the next response is a success it
  returns normally with the warning in the log. Once it has its contact,
  \<^verbatim>\<open>update_career\<close> never raises MonicaFetchError. Each of the other mutations
  raises MonicaFetchError on a response of that kind.
\<close>

theorem update_career_swallows_terminal_error:
  "(get_contact remote_contact monica_id self = Some (Inr contact, s)
      \<and> status_code (remote_contact (api_requests s)) \<noteq> 200
      \<and> \<not> sublist slow_down_text (error_message (remote_contact (api_requests s))) \<longrightarrow>
      update_career remote_contact monica_id career_data self =
        while_true (update_career_body remote_contact monica_id (complete_name contact))
          (log_warning
             (career_warning (complete_name contact) monica_id
                (error_message (remote_contact (api_requests s))))
             (s\<lparr>api_requests := Suc (api_requests s)\<rparr>))
      \<and> (status_code (remote_contact (Suc (api_requests s))) = 200 \<longrightarrow>
           (\<exists>m'. update_career remote_contact monica_id career_data self = Some (Inr (), m')
              \<and> (WARNING, career_warning (complete_name contact) monica_id
                    (error_message (remote_contact (api_requests s)))) \<in> set (log m'))))
   \<and> (get_contact remote_contact monica_id self = Some (Inr contact, s) \<longrightarrow>
      update_career remote_contact monica_id career_data self
        \<noteq> Some (Inl (MonicaFetchError text), m))
   \<and> (status_code (remote_contact (api_requests self)) \<noteq> 201
       \<and> \<not> sublist slow_down_text (error_message (remote_contact (api_requests self))) \<longrightarrow>
      (\<exists>msg m. create_contact remote_contact data reference_id self = Some (Inl (MonicaFetchError msg), m)))
   \<and> (status_code (remote_contact (api_requests self)) \<noteq> 200
       \<and> \<not> sublist slow_down_text (error_message (remote_contact (api_requests self))) \<longrightarrow>
      (\<exists>msg m. update_contact remote_contact monica_id data self = Some (Inl (MonicaFetchError msg), m)))
   \<and> (status_code (remote (api_requests self)) \<noteq> 200
       \<and> \<not> sublist slow_down_text (error_message (remote (api_requests self))) \<longrightarrow>
      (\<exists>msg m. delete_contact remote monica_id name self = Some (Inl (MonicaFetchError msg), m)))
   \<and> (status_code (remote_note (api_requests self)) \<noteq> 201
       \<and> \<not> sublist slow_down_text (error_message (remote_note (api_requests self))) \<longrightarrow>
      (\<exists>msg m. add_note remote_note note_data name self = Some (Inl (MonicaFetchError msg), m)))
   \<and> (status_code (remote_note (api_requests self)) \<noteq> 200
       \<and> \<not> sublist slow_down_text (error_message (remote_note (api_requests self))) \<longrightarrow>
      (\<exists>msg m. update_note remote_note note_id note_data name self = Some (Inl (MonicaFetchError msg), m)))
   \<and> (status_code (remote (api_requests self)) \<noteq> 200
       \<and> \<not> sublist slow_down_text (error_message (remote (api_requests self))) \<longrightarrow>
      (\<exists>msg m. delete_note remote note_id monica_id name self = Some (Inl (MonicaFetchError msg), m)))
   \<and> (status_code (remote (api_requests self)) \<noteq> 200
       \<and> \<not> sublist slow_down_text (error_message (remote (api_requests self))) \<longrightarrow>
      (\<exists>msg m. remove_tags remote tags_data monica_id name self = Some (Inl (MonicaFetchError msg), m)))
   \<and> (status_code (remote (api_requests self)) \<noteq> 200
       \<and> \<not> sublist slow_down_text (error_message (remote (api_requests self))) \<longrightarrow>
      (\<exists>msg m. add_tags remote tags_data monica_id name self = Some (Inl (MonicaFetchError msg), m)))
   \<and> (status_code (remote (api_requests self)) \<noteq> 200
       \<and> \<not> sublist slow_down_text (error_message (remote (api_requests self))) \<longrightarrow>
      (\<exists>msg m. delete_address remote address_id monica_id name self = Some (Inl (MonicaFetchError msg), m)))
   \<and> (status_code (remote_address (api_requests self)) \<noteq> 201
       \<and> \<not> sublist slow_down_text (error_message (remote_address (api_requests self))) \<longrightarrow>
      (\<exists>msg m. create_address remote_address address_data name self = Some (Inl (MonicaFetchError msg), m)))
   \<and> (status_code (remote_field (api_requests self)) \<noteq> 201
       \<and> \<not> sublist slow_down_text (error_message (remote_field (api_requests self))) \<longrightarrow>
      (\<exists>msg m. create_contact_field remote_field monica_id field_data name self = Some (Inl (MonicaFetchError msg), m)))
   \<and> (status_code (remote (api_requests self)) \<noteq> 200
       \<and> \<not> sublist slow_down_text (error_message (remote (api_requests self))) \<longrightarrow>
      (\<exists>msg m. delete_contact_field remote field_id monica_id name self = Some (Inl (MonicaFetchError msg), m)))"
proof -
  have a: "get_contact remote_contact monica_id self = Some (Inr contact, s)
      \<and> status_code (remote_contact (api_requests s)) \<noteq> 200
      \<and> \<not> sublist slow_down_text (error_message (remote_contact (api_requests s))) \<longrightarrow>
      update_career remote_contact monica_id career_data self =
        while_true (update_career_body remote_contact monica_id (complete_name contact))
          (log_warning
             (career_warning (complete_name contact) monica_id
                (error_message (remote_contact (api_requests s))))
             (s\<lparr>api_requests := Suc (api_requests s)\<rparr>))
      \<and> (status_code (remote_contact (Suc (api_requests s))) = 200 \<longrightarrow>
           (\<exists>m'. update_career remote_contact monica_id career_data self = Some (Inr (), m')
              \<and> (WARNING, career_warning (complete_name contact) monica_id
                    (error_message (remote_contact (api_requests s)))) \<in> set (log m')))"
  proof (intro impI, elim conjE)
    assume g: "get_contact remote_contact monica_id self = Some (Inr contact, s)"
      and st: "status_code (remote_contact (api_requests s)) \<noteq> 200"
      and ns: "\<not> sublist slow_down_text (error_message (remote_contact (api_requests s)))"
    let ?body = "update_career_body remote_contact monica_id (complete_name contact)"
    let ?w = "career_warning (complete_name contact) monica_id
                (error_message (remote_contact (api_requests s)))"
    let ?s1 = "log_warning ?w (s\<lparr>api_requests := Suc (api_requests s)\<rparr>)"
    from update_career_body_rejected [of remote_contact s monica_id "complete_name contact"] st ns
    have "?body s = Continue ?s1" by simp
    then have "while_true ?body s = while_true ?body ?s1" by (rule while_true_Continue)
    with update_career_after_get_contact [OF g, of career_data]
    have eq: "update_career remote_contact monica_id career_data self = while_true ?body ?s1"
      by simp
    have ret: "\<exists>m'. update_career remote_contact monica_id career_data self = Some (Inr (), m')
              \<and> (WARNING, ?w) \<in> set (log m')"
      if ok: "status_code (remote_contact (Suc (api_requests s))) = 200"
    proof -
      from ok have "status_code (remote_contact (api_requests ?s1)) = 200"
        by (simp add: log_warning_def)
      from update_career_body_accepted [of remote_contact ?s1 monica_id "complete_name contact"]
        this
      obtain m' where r: "?body ?s1 = Return () m'" and l: "set (log ?s1) \<subseteq> set (log m')"
        by blast
      from r have "while_true ?body ?s1 = Some (Inr (), m')" by (rule while_true_Return)
      with eq have u: "update_career remote_contact monica_id career_data self
          = Some (Inr (), m')" by simp
      have "(WARNING, ?w) \<in> set (log ?s1)" by (simp add: log_warning_def)
      with l have "(WARNING, ?w) \<in> set (log m')" by (rule subsetD)
      with u show ?thesis by (intro exI conjI)
    qed
    from eq ret
    show "update_career remote_contact monica_id career_data self = while_true ?body ?s1
      \<and> (status_code (remote_contact (Suc (api_requests s))) = 200 \<longrightarrow>
           (\<exists>m'. update_career remote_contact monica_id career_data self = Some (Inr (), m')
              \<and> (WARNING, ?w) \<in> set (log m')))"
      by blast
  qed
  have b: "get_contact remote_contact monica_id self = Some (Inr contact, s) \<longrightarrow>
      update_career remote_contact monica_id career_data self
        \<noteq> Some (Inl (MonicaFetchError text), m)"
    using update_career_loop_no_fetch_error
    by (auto simp: update_career_after_get_contact)
  have o0: "(status_code (remote_contact (api_requests self)) \<noteq> 201
       \<and> \<not> sublist slow_down_text (error_message (remote_contact (api_requests self))) \<longrightarrow>
      (\<exists>msg m. create_contact remote_contact data reference_id self = Some (Inl (MonicaFetchError msg), m)))"
    unfolding create_contact_raises_iff by (intro impI, elim conjE) (rule rejected_now)
  have o1: "(status_code (remote_contact (api_requests self)) \<noteq> 200
       \<and> \<not> sublist slow_down_text (error_message (remote_contact (api_requests self))) \<longrightarrow>
      (\<exists>msg m. update_contact remote_contact monica_id data self = Some (Inl (MonicaFetchError msg), m)))"
    unfolding update_contact_raises_iff by (intro impI, elim conjE) (rule rejected_now)
  have o2: "(status_code (remote (api_requests self)) \<noteq> 200
       \<and> \<not> sublist slow_down_text (error_message (remote (api_requests self))) \<longrightarrow>
      (\<exists>msg m. delete_contact remote monica_id name self = Some (Inl (MonicaFetchError msg), m)))"
    unfolding delete_contact_raises_iff by (intro impI, elim conjE) (rule rejected_now)
  have o3: "(status_code (remote_note (api_requests self)) \<noteq> 201
       \<and> \<not> sublist slow_down_text (error_message (remote_note (api_requests self))) \<longrightarrow>
      (\<exists>msg m. add_note remote_note note_data name self = Some (Inl (MonicaFetchError msg), m)))"
    unfolding add_note_raises_iff by (intro impI, elim conjE) (rule rejected_now)
  have o4: "(status_code (remote_note (api_requests self)) \<noteq> 200
       \<and> \<not> sublist slow_down_text (error_message (remote_note (api_requests self))) \<longrightarrow>
      (\<exists>msg m. update_note remote_note note_id note_data name self = Some (Inl (MonicaFetchError msg), m)))"
    unfolding update_note_raises_iff by (intro impI, elim conjE) (rule rejected_now)
  have o5: "(status_code (remote (api_requests self)) \<noteq> 200
       \<and> \<not> sublist slow_down_text (error_message (remote (api_requests self))) \<longrightarrow>
      (\<exists>msg m. delete_note remote note_id monica_id name self = Some (Inl (MonicaFetchError msg), m)))"
    unfolding delete_note_raises_iff by (intro impI, elim conjE) (rule rejected_now)
  have o6: "(status_code (remote (api_requests self)) \<noteq> 200
       \<and> \<not> sublist slow_down_text (error_message (remote (api_requests self))) \<longrightarrow>
      (\<exists>msg m. remove_tags remote tags_data monica_id name self = Some (Inl (MonicaFetchError msg), m)))"
    unfolding remove_tags_raises_iff by (intro impI, elim conjE) (rule rejected_now)
  have o7: "(status_code (remote (api_requests self)) \<noteq> 200
       \<and> \<not> sublist slow_down_text (error_message (remote (api_requests self))) \<longrightarrow>
      (\<exists>msg m. add_tags remote tags_data monica_id name self = Some (Inl (MonicaFetchError msg), m)))"
    unfolding add_tags_raises_iff by (intro impI, elim conjE) (rule rejected_now)
  have o8: "(status_code (remote (api_requests self)) \<noteq> 200
       \<and> \<not> sublist slow_down_text (error_message (remote (api_requests self))) \<longrightarrow>
      (\<exists>msg m. delete_address remote address_id monica_id name self = Some (Inl (MonicaFetchError msg), m)))"
    unfolding delete_address_raises_iff by (intro impI, elim conjE) (rule rejected_now)
  have o9: "(status_code (remote_address (api_requests self)) \<noteq> 201
       \<and> \<not> sublist slow_down_text (error_message (remote_address (api_requests self))) \<longrightarrow>
      (\<exists>msg m. create_address remote_address address_data name self = Some (Inl (MonicaFetchError msg), m)))"
    unfolding create_address_raises_iff by (intro impI, elim conjE) (rule rejected_now)
  have o10: "(status_code (remote_field (api_requests self)) \<noteq> 201
       \<and> \<not> sublist slow_down_text (error_message (remote_field (api_requests self))) \<longrightarrow>
      (\<exists>msg m. create_contact_field remote_field monica_id field_data name self = Some (Inl (MonicaFetchError msg), m)))"
    unfolding create_contact_field_raises_iff by (intro impI, elim conjE) (rule rejected_now)
  have o11: "(status_code (remote (api_requests self)) \<noteq> 200
       \<and> \<not> sublist slow_down_text (error_message (remote (api_requests self))) \<longrightarrow>
      (\<exists>msg m. delete_contact_field remote field_id monica_id name self = Some (Inl (MonicaFetchError msg), m)))"
    unfolding delete_contact_field_raises_iff by (intro impI, elim conjE) (rule rejected_now)
  from a b o0 o1 o2 o3 o4 o5 o6 o7 o8 o9 o10 o11 show ?thesis by (intro conjI)
qed

theorem update_career_swallows_terminal_error_witness:
  "\<exists>m. update_career (refuse_then_accept ada_changed) (IdStr ''1'') () session
          = Some (Inr (), m)
       \<and> (WARNING, career_warning ''Ada Lovelace'' (IdStr ''1'')
             ''The contact has not been found'') \<in> set (log m)"
proof -
  let ?r = "refuse_then_accept ada_changed"
  have g: "get_contact ?r (IdStr ''1'') session = Some (Inr ada, session)"
    by (rule get_contact_cached_ada)
  have st: "status_code (?r (api_requests session)) \<noteq> 200"
    by (simp add: refuse_then_accept_def refusing_def session_def Monica_init_def)
  have ns: "\<not> sublist slow_down_text (error_message (?r (api_requests session)))"
    by (simp add: refuse_then_accept_def refusing_def session_def Monica_init_def
        slow_down_text_def sublist_code)
  have ok: "status_code (?r (Suc (api_requests session))) = 200"
    by (simp add: refuse_then_accept_def accepting_def)
  have msg: "error_message (?r (api_requests session)) = ''The contact has not been found''"
    by (simp add: refuse_then_accept_def refusing_def session_def Monica_init_def)
  have name: "complete_name ada = ''Ada Lovelace''"
    by (simp add: ada_def)
  from g st ns have pre: "get_contact ?r (IdStr ''1'') session = Some (Inr ada, session)
      \<and> status_code (?r (api_requests session)) \<noteq> 200
      \<and> \<not> sublist slow_down_text (error_message (?r (api_requests session)))"
    by (intro conjI)
  note inst = update_career_swallows_terminal_error
    [where remote_contact = ?r and monica_id = "IdStr ''1''" and self = session
       and contact = ada and s = session and career_data = "()"]
  from inst [THEN conjunct1, THEN mp, OF pre, THEN conjunct2, THEN mp, OF ok]
  show ?thesis unfolding msg name .
qed

section \<open>Termination of the retry loops\<close>































subsection \<open>The loop of \<^verbatim>\<open>update_career\<close>\<close>














subsection \<open>The loop of \<^verbatim>\<open>get_contacts\<close>\<close>

















subsection \<open>When the operations end\<close>








section \<open>Rate-limit responses and the caller\<close>


























end
